theory Spec2Isabelle
  imports Main "HOL-Library.Word"
begin

section \<open>Values shared by the popup and the content script\<close>

text \<open>
  \<^verbatim>\<open>common/constants.js\<close> is imported by both files but is not part of the examined
  sources, so the two constant tables \<^verbatim>\<open>READING_STATUS\<close> and \<^verbatim>\<open>MESSAGE_TYPES\<close> are
  parameters of every function below: a record with one string per name.
\<close>

record reading_status =
  IDLE :: string
  READING :: string
  PAUSED :: string
  STOPPED :: string
  COMPLETE :: string
  ERROR :: string

record message_types =
  START_READING :: string
  PAUSE_READING :: string
  RESUME_READING :: string
  STOP_READING :: string
  GET_STATUS :: string

definition status_enumeration :: "reading_status \<Rightarrow> string list" where
  "status_enumeration K = [IDLE K, READING K, PAUSED K, STOPPED K, COMPLETE K, ERROR K]"

definition recognized_types :: "message_types \<Rightarrow> string list" where
  "recognized_types M =
     [START_READING M, PAUSE_READING M, RESUME_READING M, STOP_READING M, GET_STATUS M]"

text \<open>
  A call either returns a value or throws; an awaited promise either resolves or rejects.
  \<open>Throws m\<close> carries \<^verbatim>\<open>error.message\<close>.
\<close>

datatype 'a outcome = Returns 'a | Throws string

text \<open>
  The three response objects the content script passes to \<^verbatim>\<open>sendResponse\<close>:
  \<^verbatim>\<open>{success: true}\<close>, \<^verbatim>\<open>{status, isReading, isPaused}\<close> and \<^verbatim>\<open>{error: message}\<close>.
\<close>

datatype response =
    Success
  | StatusResponse string bool bool
  | ErrorResponse string

text \<open>\<^verbatim>\<open>response.status\<close>: \<open>None\<close> is \<^verbatim>\<open>undefined\<close>.\<close>

fun response_status :: "response \<Rightarrow> string option" where
  "response_status (StatusResponse s r p) = Some s"
| "response_status Success = None"
| "response_status (ErrorResponse m) = None"

section \<open>The popup (\<^verbatim>\<open>popup/popup.js\<close>)\<close>

text \<open>
  The module variable \<^verbatim>\<open>currentStatus\<close>, the properties of the DOM elements the popup
  writes, and the lines written with \<^verbatim>\<open>console.error\<close> (its two arguments).
\<close>

record popup =
  currentStatus :: string
  statusElement_textContent :: string
  readButton_disabled :: bool
  controls_display :: string
  pauseButton_display :: string
  resumeButton_display :: string
  pauseButton_disabled :: bool
  resumeButton_disabled :: bool
  stopButton_disabled :: bool
  console_error :: "(string \<times> string) list"

text \<open>
  The object literal \<^verbatim>\<open>statusMessages\<close>: six computed keys, written in source order, a
  later key overwriting an equal earlier one. The character after \<^verbatim>\<open>Reading\<close> is
  U+2026, given here by its three UTF-8 bytes.
\<close>

definition statusMessages :: "reading_status \<Rightarrow> string \<rightharpoonup> string" where
  "statusMessages K =
     [IDLE K \<mapsto> ''Ready to read'',
      READING K \<mapsto> ''Reading'' @ [char_of (0xE2::nat), char_of (0x80::nat), char_of (0xA6::nat)],
      PAUSED K \<mapsto> ''Paused'',
      STOPPED K \<mapsto> ''Stopped'',
      COMPLETE K \<mapsto> ''Reading complete'',
      ERROR K \<mapsto> ''Error reading page'']"

text \<open>
  \<^verbatim>\<open>statusMessages[status]\<close> is an ordinary property read: a key that is not an own
  property of the literal is looked up on \<^verbatim>\<open>Object.prototype\<close>. Every member found there
  is a function, except \<^verbatim>\<open>__proto__\<close>, which yields \<^verbatim>\<open>Object.prototype\<close> itself; all of
  them are truthy. The table lists the members that ECMAScript gives \<^verbatim>\<open>Object.prototype\<close>
  (those of its Annex B included), each with the text it becomes when it is assigned to
  \<^verbatim>\<open>textContent\<close>.
\<close>

definition native_function_text :: "string \<Rightarrow> string" where
  "native_function_text name = ''function '' @ name @ ''() { [native code] }''"

definition Object_prototype :: "(string \<times> string) list" where
  "Object_prototype =
     [(''constructor'', native_function_text ''Object''),
      (''__defineGetter__'', native_function_text ''__defineGetter__''),
      (''__defineSetter__'', native_function_text ''__defineSetter__''),
      (''hasOwnProperty'', native_function_text ''hasOwnProperty''),
      (''__lookupGetter__'', native_function_text ''__lookupGetter__''),
      (''__lookupSetter__'', native_function_text ''__lookupSetter__''),
      (''isPrototypeOf'', native_function_text ''isPrototypeOf''),
      (''propertyIsEnumerable'', native_function_text ''propertyIsEnumerable''),
      (''toString'', native_function_text ''toString''),
      (''valueOf'', native_function_text ''valueOf''),
      (''__proto__'', ''[object Object]''),
      (''toLocaleString'', native_function_text ''toLocaleString'')]"

text \<open>\<^verbatim>\<open>statusMessages[status] || 'Ready to read'\<close>; the empty string is falsy.\<close>

definition status_label :: "reading_status \<Rightarrow> string \<Rightarrow> string" where
  "status_label K status =
     (case statusMessages K status of
        Some m \<Rightarrow> (if m \<noteq> [] then m else ''Ready to read'')
      | None \<Rightarrow>
          (case map_of Object_prototype status of
             Some inherited \<Rightarrow> inherited
           | None \<Rightarrow> ''Ready to read''))"

definition updateStatus :: "reading_status \<Rightarrow> string \<Rightarrow> popup \<Rightarrow> popup" where
  "updateStatus K status p =
     p\<lparr>currentStatus := status, statusElement_textContent := status_label K status\<rparr>"

text \<open>
  The \<^verbatim>\<open>switch\<close> compares with \<^verbatim>\<open>===\<close>, case by case in source order. The default branch
  does not write the \<^verbatim>\<open>display\<close> of the pause and resume buttons.
\<close>

definition updateButtons :: "reading_status \<Rightarrow> string \<Rightarrow> popup \<Rightarrow> popup" where
  "updateButtons K status p =
     (if status = READING K then
        p\<lparr>readButton_disabled := True,
          controls_display := ''flex'',
          pauseButton_display := ''block'',
          resumeButton_display := ''none'',
          pauseButton_disabled := False,
          resumeButton_disabled := True,
          stopButton_disabled := False\<rparr>
      else if status = PAUSED K then
        p\<lparr>readButton_disabled := True,
          controls_display := ''flex'',
          pauseButton_display := ''none'',
          resumeButton_display := ''block'',
          pauseButton_disabled := True,
          resumeButton_disabled := False,
          stopButton_disabled := False\<rparr>
      else if status = COMPLETE K \<or> status = STOPPED K \<or> status = ERROR K then
        p\<lparr>readButton_disabled := False,
          controls_display := ''flex'',
          pauseButton_display := ''block'',
          resumeButton_display := ''none'',
          pauseButton_disabled := True,
          resumeButton_disabled := True,
          stopButton_disabled := True\<rparr>
      else
        p\<lparr>readButton_disabled := False,
          controls_display := ''none'',
          pauseButton_disabled := True,
          resumeButton_disabled := True,
          stopButton_disabled := True\<rparr>)"

text \<open>Both renderers, in the order every caller uses them.\<close>

definition render :: "reading_status \<Rightarrow> string \<Rightarrow> popup \<Rightarrow> popup" where
  "render K status p = updateButtons K status (updateStatus K status p)"

text \<open>
  The browser as the popup sees it during one run of an operation:
  \<^verbatim>\<open>chrome.tabs.query\<close> resolves with the matching tabs (each given by its \<^verbatim>\<open>id\<close>) or
  rejects; \<^verbatim>\<open>chrome.tabs.sendMessage\<close> calls back with \<^verbatim>\<open>chrome.runtime.lastError\<close> set,
  or with a response, which is \<^verbatim>\<open>undefined\<close> (\<open>None\<close>) when the receiver sent none.
  Every awaited promise is taken to settle.
\<close>

datatype send_result = LastError string | Delivered "response option"

record chrome =
  tabs_query :: "nat list outcome"
  tabs_sendMessage :: "nat \<Rightarrow> string \<Rightarrow> send_result"

definition sendMessageToTab :: "chrome \<Rightarrow> nat \<Rightarrow> string \<Rightarrow> response option outcome" where
  "sendMessageToTab ch tabId type =
     (case tabs_sendMessage ch tabId type of
        LastError m \<Rightarrow> Throws m
      | Delivered r \<Rightarrow> Returns r)"

definition log_error :: "string \<Rightarrow> string \<Rightarrow> popup \<Rightarrow> popup" where
  "log_error prefix m p = p\<lparr>console_error := console_error p @ [(prefix, m)]\<rparr>"

text \<open>The \<^verbatim>\<open>catch\<close> block of \<^verbatim>\<open>startReading\<close>.\<close>

definition startReading_catch :: "reading_status \<Rightarrow> string \<Rightarrow> popup \<Rightarrow> popup" where
  "startReading_catch K m p = render K (ERROR K) (log_error ''Error starting reading:'' m p)"

definition startReading :: "reading_status \<Rightarrow> message_types \<Rightarrow> chrome \<Rightarrow> popup \<Rightarrow> popup" where
  "startReading K M ch p =
     (let p1 = render K (IDLE K) p in
      case tabs_query ch of
        Throws m \<Rightarrow> startReading_catch K m p1
      | Returns tabs \<Rightarrow>
          (case tabs of
             [] \<Rightarrow> startReading_catch K ''No active tab found'' p1
           | tab # rest \<Rightarrow>
               (case sendMessageToTab ch tab (START_READING M) of
                  Throws m \<Rightarrow> startReading_catch K m p1
                | Returns r \<Rightarrow> render K (READING K) p1)))"

text \<open>
  \<^verbatim>\<open>pauseReading\<close>, \<^verbatim>\<open>resumeReading\<close> and \<^verbatim>\<open>stopReading\<close> have one body, which differs in
  the message type sent, the status shown on success and the log prefix.
\<close>

definition control_operation ::
  "reading_status \<Rightarrow> string \<Rightarrow> string \<Rightarrow> string \<Rightarrow> chrome \<Rightarrow> popup \<Rightarrow> popup" where
  "control_operation K type target prefix ch p =
     (case tabs_query ch of
        Throws m \<Rightarrow> log_error prefix m p
      | Returns tabs \<Rightarrow>
          (case tabs of
             [] \<Rightarrow> p
           | tab # rest \<Rightarrow>
               (case sendMessageToTab ch tab type of
                  Throws m \<Rightarrow> log_error prefix m p
                | Returns r \<Rightarrow> render K target p)))"

definition pauseReading :: "reading_status \<Rightarrow> message_types \<Rightarrow> chrome \<Rightarrow> popup \<Rightarrow> popup" where
  "pauseReading K M ch p =
     control_operation K (PAUSE_READING M) (PAUSED K) ''Error pausing reading:'' ch p"

definition resumeReading :: "reading_status \<Rightarrow> message_types \<Rightarrow> chrome \<Rightarrow> popup \<Rightarrow> popup" where
  "resumeReading K M ch p =
     control_operation K (RESUME_READING M) (READING K) ''Error resuming reading:'' ch p"

definition stopReading :: "reading_status \<Rightarrow> message_types \<Rightarrow> chrome \<Rightarrow> popup \<Rightarrow> popup" where
  "stopReading K M ch p =
     control_operation K (STOP_READING M) (STOPPED K) ''Error stopping reading:'' ch p"

text \<open>
  \<^verbatim>\<open>refreshStatus\<close>: \<^verbatim>\<open>if (tab)\<close> and \<^verbatim>\<open>if (response && response.status)\<close> have no
  \<^verbatim>\<open>else\<close>; only a rejection reaches the \<^verbatim>\<open>catch\<close> block, which logs nothing.
\<close>

definition refreshStatus :: "reading_status \<Rightarrow> message_types \<Rightarrow> chrome \<Rightarrow> popup \<Rightarrow> popup" where
  "refreshStatus K M ch p =
     (case tabs_query ch of
        Throws m \<Rightarrow> render K (IDLE K) p
      | Returns tabs \<Rightarrow>
          (case tabs of
             [] \<Rightarrow> p
           | tab # rest \<Rightarrow>
               (case sendMessageToTab ch tab (GET_STATUS M) of
                  Throws m \<Rightarrow> render K (IDLE K) p
                | Returns None \<Rightarrow> p
                | Returns (Some resp) \<Rightarrow>
                    (case response_status resp of
                       None \<Rightarrow> p
                     | Some s \<Rightarrow> (if s \<noteq> [] then render K s p else p)))))"

text \<open>What a user can see of the buttons: which are enabled and whether the control row shows.\<close>

definition buttons_view :: "popup \<Rightarrow> bool \<times> string \<times> bool \<times> bool \<times> bool" where
  "buttons_view p =
     (readButton_disabled p, controls_display p,
      pauseButton_disabled p, resumeButton_disabled p, stopButton_disabled p)"

text \<open>Concrete tables and a concrete popup, used to run the definitions on examples.\<close>

definition example_status :: reading_status where
  "example_status =
     \<lparr>IDLE = ''idle'', READING = ''reading'', PAUSED = ''paused'',
      STOPPED = ''stopped'', COMPLETE = ''complete'', ERROR = ''error''\<rparr>"

definition example_types :: message_types where
  "example_types =
     \<lparr>START_READING = ''START_READING'', PAUSE_READING = ''PAUSE_READING'',
      RESUME_READING = ''RESUME_READING'', STOP_READING = ''STOP_READING'',
      GET_STATUS = ''GET_STATUS''\<rparr>"

definition example_popup :: popup where
  "example_popup =
     \<lparr>currentStatus = ''reading'', statusElement_textContent = ''Reading'',
      readButton_disabled = True, controls_display = ''flex'',
      pauseButton_display = ''block'', resumeButton_display = ''none'',
      pauseButton_disabled = False, resumeButton_disabled = True,
      stopButton_disabled = False, console_error = []\<rparr>"

text \<open>
  The ways a run of a popup operation that sends \<open>type\<close> can fail: the tab query rejects,
  it finds no active tab, or the send ends with \<^verbatim>\<open>chrome.runtime.lastError\<close> set (the
  content script is unreachable).
\<close>

definition run_fails :: "chrome \<Rightarrow> string \<Rightarrow> bool" where
  "run_fails ch type =
     (case tabs_query ch of
        Throws m \<Rightarrow> True
      | Returns [] \<Rightarrow> True
      | Returns (tab # rest) \<Rightarrow>
          (case tabs_sendMessage ch tab type of
             LastError m \<Rightarrow> True
           | Delivered r \<Rightarrow> False))"

text \<open>
  The message of the error a run that sends \<open>type\<close> ends in the \<^verbatim>\<open>catch\<close> block with, when
  the tab query or the send rejects; \<open>None\<close> when neither does.
\<close>

definition rejection :: "chrome \<Rightarrow> string \<Rightarrow> string option" where
  "rejection ch type =
     (case tabs_query ch of
        Throws m \<Rightarrow> Some m
      | Returns [] \<Rightarrow> None
      | Returns (tab # rest) \<Rightarrow>
          (case tabs_sendMessage ch tab type of
             LastError m \<Rightarrow> Some m
           | Delivered r \<Rightarrow> None))"

text \<open>Four browsers to run the popup against.\<close>

definition chrome_no_tab :: chrome where
  "chrome_no_tab = \<lparr>tabs_query = Returns [], tabs_sendMessage = (\<lambda>tab type. Delivered None)\<rparr>"

definition chrome_no_response :: chrome where
  "chrome_no_response =
     \<lparr>tabs_query = Returns [7], tabs_sendMessage = (\<lambda>tab type. Delivered None)\<rparr>"

definition chrome_unreachable :: chrome where
  "chrome_unreachable =
     \<lparr>tabs_query = Returns [7],
      tabs_sendMessage = (\<lambda>tab type. LastError ''Receiving end does not exist.'')\<rparr>"

definition chrome_paused :: chrome where
  "chrome_paused =
     \<lparr>tabs_query = Returns [7],
      tabs_sendMessage = (\<lambda>tab type. Delivered (Some (StatusResponse ''paused'' False True)))\<rparr>"

section \<open>The content script (coordinator of extractor, page reader and overlay)\<close>

text \<open>
  Page text is a JavaScript string: a sequence of 16-bit code units.
  \<^verbatim>\<open>String.prototype.trim\<close> removes the white space and line terminators of ECMAScript
  from both ends.
\<close>

type_synonym jsstring = "16 word list"

definition is_whitespace :: "16 word \<Rightarrow> bool" where
  "is_whitespace c =
     (c \<in> set [0x9, 0xA, 0xB, 0xC, 0xD, 0x20, 0xA0, 0x1680,
               0x2028, 0x2029, 0x202F, 0x205F, 0x3000, 0xFEFF]
      \<or> (0x2000 \<le> c \<and> c \<le> 0x200A))"

definition trim :: "jsstring \<Rightarrow> jsstring" where
  "trim s = rev (dropWhile is_whitespace (rev (dropWhile is_whitespace s)))"

text \<open>
  \<^verbatim>\<open>domAnalyzer.js\<close>, \<^verbatim>\<open>pageReader.js\<close> and \<^verbatim>\<open>overlay.js\<close> are not part of the examined
  sources. The coordinator is therefore defined over any collaborators: each method is a
  parameter that, from the collaborators' own state \<open>'w\<close>, returns or throws and leaves a
  new state. \<^verbatim>\<open>pageReader.startReading\<close> is awaited: \<open>Returns\<close> is a promise that resolves,
  \<open>Throws\<close> one that rejects; the promise is taken to settle.
\<close>

record 'w collaborators =
  extractPageContent :: "'w \<Rightarrow> jsstring outcome \<times> 'w"
  overlay_exists :: "'w \<Rightarrow> bool outcome \<times> 'w"
  overlay_create :: "'w \<Rightarrow> unit outcome \<times> 'w"
  overlay_show :: "'w \<Rightarrow> unit outcome \<times> 'w"
  overlay_updateStatus :: "string \<Rightarrow> 'w \<Rightarrow> unit outcome \<times> 'w"
  overlay_updateButtons :: "string \<Rightarrow> 'w \<Rightarrow> unit outcome \<times> 'w"
  pageReader_startReading :: "jsstring \<Rightarrow> 'w \<Rightarrow> unit outcome \<times> 'w"
  pageReader_pauseReading :: "'w \<Rightarrow> unit outcome \<times> 'w"
  pageReader_resumeReading :: "'w \<Rightarrow> unit outcome \<times> 'w"
  pageReader_stopReading :: "'w \<Rightarrow> unit outcome \<times> 'w"
  pageReader_getStatus :: "'w \<Rightarrow> string outcome \<times> 'w"
  pageReader_isReading :: "'w \<Rightarrow> bool outcome \<times> 'w"
  pageReader_isPaused :: "'w \<Rightarrow> bool outcome \<times> 'w"

text \<open>Every call the coordinator makes on a collaborator, with its arguments.\<close>

datatype call =
    ExtractPageContent
  | OverlayExists
  | OverlayCreate
  | OverlayShow
  | OverlayUpdateStatus string
  | OverlayUpdateButtons string
  | ReaderStartReading jsstring
  | ReaderPauseReading
  | ReaderResumeReading
  | ReaderStopReading
  | ReaderGetStatus
  | ReaderIsReading
  | ReaderIsPaused

text \<open>
  The state one run of the coordinator works on: the collaborators' state, the calls made
  on them so far, the objects passed to \<^verbatim>\<open>sendResponse\<close> so far, and the lines written
  with \<^verbatim>\<open>console.error\<close>. \<^verbatim>\<open>sendResponse\<close> and \<^verbatim>\<open>console.error\<close> are taken not to throw.
\<close>

record 'w content =
  world :: 'w
  calls :: "call list"
  sent :: "response list"
  logged :: "(string \<times> string) list"

type_synonym ('a, 'w) action = "'w content \<Rightarrow> 'a outcome \<times> 'w content"

definition succeed :: "'a \<Rightarrow> ('a, 'w) action" where
  "succeed x s = (Returns x, s)"

definition throw :: "string \<Rightarrow> ('a, 'w) action" where
  "throw m s = (Throws m, s)"

text \<open>Sequencing: a throw skips the rest.\<close>

definition andThen :: "('a, 'w) action \<Rightarrow> ('a \<Rightarrow> ('b, 'w) action) \<Rightarrow> ('b, 'w) action" where
  "andThen f g s = (case f s of (Returns x, s') \<Rightarrow> g x s' | (Throws m, s') \<Rightarrow> (Throws m, s'))"

text \<open>\<^verbatim>\<open>try { f } catch (error) { h }\<close>, the handler receiving \<^verbatim>\<open>error.message\<close>.\<close>

definition tryCatch :: "('a, 'w) action \<Rightarrow> (string \<Rightarrow> ('a, 'w) action) \<Rightarrow> ('a, 'w) action" where
  "tryCatch f h s = (case f s of (Returns x, s') \<Rightarrow> (Returns x, s') | (Throws m, s') \<Rightarrow> h m s')"

definition invoke :: "call \<Rightarrow> ('w \<Rightarrow> 'a outcome \<times> 'w) \<Rightarrow> ('a, 'w) action" where
  "invoke ev method s =
     (case method (world s) of (r, w) \<Rightarrow> (r, s\<lparr>world := w, calls := calls s @ [ev]\<rparr>))"

definition sendResponse :: "response \<Rightarrow> (unit, 'w) action" where
  "sendResponse r s = (Returns (), s\<lparr>sent := sent s @ [r]\<rparr>)"

definition console_error_content :: "string \<Rightarrow> string \<Rightarrow> (unit, 'w) action" where
  "console_error_content prefix m s = (Returns (), s\<lparr>logged := logged s @ [(prefix, m)]\<rparr>)"

text \<open>
  The content script's \<^verbatim>\<open>startReading\<close>: its \<^verbatim>\<open>try\<close> block, its \<^verbatim>\<open>catch\<close> block (which
  rethrows) and the whole.
\<close>

definition startReading_content_try ::
  "'w collaborators \<Rightarrow> reading_status \<Rightarrow> (unit, 'w) action" where
  "startReading_content_try c K =
     andThen (invoke ExtractPageContent (extractPageContent c)) (\<lambda>content.
       if content = [] \<or> length (trim content) = 0 then
         throw ''No readable content found on this page''
       else
         andThen (invoke OverlayExists (overlay_exists c)) (\<lambda>exists.
         andThen (if \<not> exists then invoke OverlayCreate (overlay_create c) else succeed ()) (\<lambda>_.
         andThen (invoke OverlayShow (overlay_show c)) (\<lambda>_.
         andThen (invoke (OverlayUpdateStatus (IDLE K)) (overlay_updateStatus c (IDLE K))) (\<lambda>_.
         andThen (invoke (OverlayUpdateButtons (IDLE K)) (overlay_updateButtons c (IDLE K))) (\<lambda>_.
         invoke (ReaderStartReading content) (pageReader_startReading c content)))))))"

definition startReading_content_catch ::
  "'w collaborators \<Rightarrow> reading_status \<Rightarrow> string \<Rightarrow> (unit, 'w) action" where
  "startReading_content_catch c K m =
     andThen (console_error_content ''Error starting reading:'' m) (\<lambda>_.
     andThen (invoke OverlayExists (overlay_exists c)) (\<lambda>exists.
     andThen
       (if exists then
          andThen (invoke (OverlayUpdateStatus (ERROR K)) (overlay_updateStatus c (ERROR K))) (\<lambda>_.
          invoke (OverlayUpdateButtons (ERROR K)) (overlay_updateButtons c (ERROR K)))
        else succeed ()) (\<lambda>_.
     throw m)))"

definition startReading_content :: "'w collaborators \<Rightarrow> reading_status \<Rightarrow> (unit, 'w) action" where
  "startReading_content c K =
     tryCatch (startReading_content_try c K) (startReading_content_catch c K)"

record message =
  msg_type :: string

text \<open>\<^verbatim>\<open>handleMessage\<close>: the \<^verbatim>\<open>switch\<close> on \<^verbatim>\<open>message.type\<close> inside \<^verbatim>\<open>try\<close>/\<^verbatim>\<open>catch\<close>.\<close>

definition handleMessage ::
  "'w collaborators \<Rightarrow> reading_status \<Rightarrow> message_types \<Rightarrow> message \<Rightarrow> (unit, 'w) action" where
  "handleMessage c K M message =
     tryCatch
       (if msg_type message = START_READING M then
          andThen (startReading_content c K) (\<lambda>_. sendResponse Success)
        else if msg_type message = PAUSE_READING M then
          andThen (invoke ReaderPauseReading (pageReader_pauseReading c)) (\<lambda>_.
          sendResponse Success)
        else if msg_type message = RESUME_READING M then
          andThen (invoke ReaderResumeReading (pageReader_resumeReading c)) (\<lambda>_.
          sendResponse Success)
        else if msg_type message = STOP_READING M then
          andThen (invoke ReaderStopReading (pageReader_stopReading c)) (\<lambda>_.
          sendResponse Success)
        else if msg_type message = GET_STATUS M then
          andThen (invoke ReaderGetStatus (pageReader_getStatus c)) (\<lambda>status.
          andThen (invoke ReaderIsReading (pageReader_isReading c)) (\<lambda>isReading.
          andThen (invoke ReaderIsPaused (pageReader_isPaused c)) (\<lambda>isPaused.
          sendResponse (StatusResponse status isReading isPaused))))
        else
          sendResponse (ErrorResponse ''Unknown message type''))
       (\<lambda>m.
          andThen (console_error_content ''Error handling message:'' m) (\<lambda>_.
          sendResponse (ErrorResponse m)))"

text \<open>
  What a message handler owes the result of the action it dispatched: the response
  object \<open>g x\<close> for an action that returned \<open>x\<close>, the object \<^verbatim>\<open>{error: error.message}\<close> for
  one that threw; and, as the state it leaves, the state the action left with that one
  response sent and, after a throw, the line \<^verbatim>\<open>Error handling message:\<close> logged.
\<close>

fun reply :: "('a \<Rightarrow> response) \<Rightarrow> 'a outcome \<Rightarrow> response" where
  "reply g (Returns x) = g x"
| "reply g (Throws m) = ErrorResponse m"

fun answer :: "('a \<Rightarrow> response) \<Rightarrow> 'a outcome \<times> 'w content \<Rightarrow> unit outcome \<times> 'w content" where
  "answer g (Returns x, s) = (Returns (), s\<lparr>sent := sent s @ [g x]\<rparr>)"
| "answer g (Throws m, s) =
     (Returns (),
      s\<lparr>logged := logged s @ [(''Error handling message:'', m)],
        sent := sent s @ [ErrorResponse m]\<rparr>)"

text \<open>Messages handled one after the other, each run finishing before the next starts.\<close>

fun handleMessages ::
  "'w collaborators \<Rightarrow> reading_status \<Rightarrow> message_types \<Rightarrow> message list \<Rightarrow>
   'w content \<Rightarrow> 'w content" where
  "handleMessages c K M [] s = s"
| "handleMessages c K M (message # rest) s =
     handleMessages c K M rest (snd (handleMessage c K M message s))"

definition loaded :: "'w \<Rightarrow> 'w content" where
  "loaded w = \<lparr>world = w, calls = [], sent = [], logged = []\<rparr>"

text \<open>The calls one run added to the record of calls.\<close>

definition calls_made :: "'w content \<Rightarrow> 'w content \<Rightarrow> call list" where
  "calls_made s s' = drop (length (calls s)) (calls s')"

text \<open>
  An action is \<open>quiet\<close> within a set of calls when, from any state, it only adds calls of
  that set to the record of calls, sends no response, and only adds lines to the log.
\<close>

definition quiet :: "call set \<Rightarrow> ('a, 'w) action \<Rightarrow> bool" where
  "quiet A f =
     (\<forall>s. (\<exists>cs. calls (snd (f s)) = calls s @ cs \<and> set cs \<subseteq> A)
        \<and> sent (snd (f s)) = sent s
        \<and> (\<exists>ls. logged (snd (f s)) = logged s @ ls))"

subsection \<open>The page reader of the specification\<close>

text \<open>
  Modelled from the spec: \<^verbatim>\<open>pageReader.js\<close> is missing from the examined sources. The
  specification gives the reader one session state, created as IDLE when the content
  script loads, and the legal transitions, which the reader itself guards: start from
  IDLE, STOPPED, COMPLETE or ERROR to READING; pause from READING to PAUSED; resume from
  PAUSED to READING; stop from READING or PAUSED to STOPPED. \<^verbatim>\<open>getStatus\<close> returns the state;
  \<^verbatim>\<open>isReading\<close> and \<^verbatim>\<open>isPaused\<close> say whether it is READING or PAUSED.
\<close>

record page =
  pageReader_state :: string

text \<open>Modelled from the spec: \<^verbatim>\<open>pageReader.startReading\<close>, legal from IDLE, STOPPED, COMPLETE and ERROR.\<close>

definition spec_startReading ::
  "reading_status \<Rightarrow> jsstring \<Rightarrow> 'a page_scheme \<Rightarrow> unit outcome \<times> 'a page_scheme" where
  "spec_startReading K content w =
     (Returns (),
      if pageReader_state w \<in> {IDLE K, STOPPED K, COMPLETE K, ERROR K}
      then w\<lparr>pageReader_state := READING K\<rparr> else w)"

text \<open>Modelled from the spec: \<^verbatim>\<open>pageReader.pauseReading\<close>, legal from READING.\<close>

definition spec_pauseReading ::
  "reading_status \<Rightarrow> 'a page_scheme \<Rightarrow> unit outcome \<times> 'a page_scheme" where
  "spec_pauseReading K w =
     (Returns (),
      if pageReader_state w = READING K then w\<lparr>pageReader_state := PAUSED K\<rparr> else w)"

text \<open>Modelled from the spec: \<^verbatim>\<open>pageReader.resumeReading\<close>, legal from PAUSED.\<close>

definition spec_resumeReading ::
  "reading_status \<Rightarrow> 'a page_scheme \<Rightarrow> unit outcome \<times> 'a page_scheme" where
  "spec_resumeReading K w =
     (Returns (),
      if pageReader_state w = PAUSED K then w\<lparr>pageReader_state := READING K\<rparr> else w)"

text \<open>Modelled from the spec: \<^verbatim>\<open>pageReader.stopReading\<close>, legal from READING and PAUSED.\<close>

definition spec_stopReading ::
  "reading_status \<Rightarrow> 'a page_scheme \<Rightarrow> unit outcome \<times> 'a page_scheme" where
  "spec_stopReading K w =
     (Returns (),
      if pageReader_state w \<in> {READING K, PAUSED K}
      then w\<lparr>pageReader_state := STOPPED K\<rparr> else w)"

text \<open>Modelled from the spec: \<^verbatim>\<open>pageReader.getStatus\<close>.\<close>

definition spec_getStatus :: "'a page_scheme \<Rightarrow> string outcome \<times> 'a page_scheme" where
  "spec_getStatus w = (Returns (pageReader_state w), w)"

text \<open>Modelled from the spec: \<^verbatim>\<open>pageReader.isReading\<close>.\<close>

definition spec_isReading ::
  "reading_status \<Rightarrow> 'a page_scheme \<Rightarrow> bool outcome \<times> 'a page_scheme" where
  "spec_isReading K w = (Returns (pageReader_state w = READING K), w)"

text \<open>Modelled from the spec: \<^verbatim>\<open>pageReader.isPaused\<close>.\<close>

definition spec_isPaused ::
  "reading_status \<Rightarrow> 'a page_scheme \<Rightarrow> bool outcome \<times> 'a page_scheme" where
  "spec_isPaused K w = (Returns (pageReader_state w = PAUSED K), w)"

text \<open>Any collaborators, with the page reader replaced by the one of the specification.\<close>

definition with_spec_reader ::
  "reading_status \<Rightarrow> 'a page_scheme collaborators \<Rightarrow> 'a page_scheme collaborators" where
  "with_spec_reader K c =
     c\<lparr>pageReader_startReading := spec_startReading K,
       pageReader_pauseReading := spec_pauseReading K,
       pageReader_resumeReading := spec_resumeReading K,
       pageReader_stopReading := spec_stopReading K,
       pageReader_getStatus := spec_getStatus,
       pageReader_isReading := spec_isReading K,
       pageReader_isPaused := spec_isPaused K\<rparr>"

text \<open>
  Collaborators to run the coordinator on: the page text is fixed, the overlay exists
  once it has been created, and the reader is the one of the specification. Their state
  adds the overlay's fields to the reader's.
\<close>

record example_page = page +
  overlay_present :: bool
  overlay_shown :: bool

definition example_collaborators :: "jsstring \<Rightarrow> example_page collaborators" where
  "example_collaborators content =
     \<lparr>extractPageContent = (\<lambda>w. (Returns content, w)),
      overlay_exists = (\<lambda>w. (Returns (overlay_present w), w)),
      overlay_create = (\<lambda>w. (Returns (), w\<lparr>overlay_present := True\<rparr>)),
      overlay_show = (\<lambda>w. (Returns (), w\<lparr>overlay_shown := True\<rparr>)),
      overlay_updateStatus = (\<lambda>status w. (Returns (), w)),
      overlay_updateButtons = (\<lambda>status w. (Returns (), w)),
      pageReader_startReading = spec_startReading example_status,
      pageReader_pauseReading = spec_pauseReading example_status,
      pageReader_resumeReading = spec_resumeReading example_status,
      pageReader_stopReading = spec_stopReading example_status,
      pageReader_getStatus = spec_getStatus,
      pageReader_isReading = spec_isReading example_status,
      pageReader_isPaused = spec_isPaused example_status\<rparr>"

definition example_page_at_load :: example_page where
  "example_page_at_load =
     \<lparr>pageReader_state = ''idle'', overlay_present = False, overlay_shown = False\<rparr>"

text \<open>The same collaborators with a page reader whose \<^verbatim>\<open>pauseReading\<close> throws.\<close>

definition broken_collaborators :: "jsstring \<Rightarrow> example_page collaborators" where
  "broken_collaborators content =
     (example_collaborators content)
       \<lparr>pageReader_pauseReading := (\<lambda>w. (Throws ''boom'', w))\<rparr>"

text \<open>The text \<^verbatim>\<open>Hi\<close>, and a text of a space, a line feed and an ideographic space.\<close>

definition example_text :: jsstring where
  "example_text = [0x48, 0x69]"

definition blank_text :: jsstring where
  "blank_text = [0x20, 0xA, 0x3000]"

definition message_of :: "string \<Rightarrow> message" where
  "message_of t = \<lparr>msg_type = t\<rparr>"

text \<open>The coordinator after one START_READING on the example page, with the text \<^verbatim>\<open>Hi\<close>.\<close>

definition after_first_start :: "example_page content" where
  "after_first_start =
     snd (startReading_content (example_collaborators example_text) example_status
            (loaded example_page_at_load))"

definition example_messages :: "message list" where
  "example_messages =
     [message_of ''PAUSE_READING'', message_of ''PING'', message_of ''STOP_READING'']"

section \<open>The popup's polling timer\<close>

















section \<open>Properties of the popup\<close>

lemmas example_defs =
  example_status_def example_types_def example_popup_def chrome_no_tab_def
  chrome_no_response_def chrome_unreachable_def chrome_paused_def

lemma currentStatus_render [simp]: "currentStatus (render K s p) = s"
  by (simp add: render_def updateStatus_def updateButtons_def)

lemma textContent_render [simp]:
  "statusElement_textContent (render K s p) = status_label K s"
  by (simp add: render_def updateStatus_def updateButtons_def)

lemma console_error_render [simp]: "console_error (render K s p) = console_error p"
  by (simp add: render_def updateStatus_def updateButtons_def)

lemma buttons_view_updateButtons:
  "buttons_view (updateButtons K s p) = buttons_view (updateButtons K s p')"
  by (simp add: updateButtons_def buttons_view_def)

lemma buttons_view_render [simp]:
  "buttons_view (render K s p) = buttons_view (updateButtons K s p')"
  unfolding render_def by (rule buttons_view_updateButtons)

text \<open>
  C2. The button state is a function of the status alone: whatever the popup looked like
  before, \<^verbatim>\<open>updateButtons\<close> leaves the same enabled flags and control-row visibility.
  READING enables pause and stop only; PAUSED enables resume and stop only; COMPLETE,
  STOPPED and ERROR enable only start; a status outside the six values, and the initial
  IDLE, hide the control row and disable pause, resume and stop.
\<close>

theorem updateButtons_table:
  assumes "distinct (status_enumeration K)"
  shows "buttons_view (updateButtons K s p) = buttons_view (updateButtons K s p')
       \<and> buttons_view (updateButtons K (READING K) p) = (True, ''flex'', False, True, False)
       \<and> buttons_view (updateButtons K (PAUSED K) p) = (True, ''flex'', True, False, False)
       \<and> (s \<in> {COMPLETE K, STOPPED K, ERROR K} \<longrightarrow>
            buttons_view (updateButtons K s p) = (False, ''flex'', True, True, True))
       \<and> (s \<notin> set (status_enumeration K) \<or> s = IDLE K \<longrightarrow>
            buttons_view (updateButtons K s p) = (False, ''none'', True, True, True))"
  using assms
  by (auto simp: updateButtons_def buttons_view_def status_enumeration_def)

theorem updateButtons_table_witness:
  "distinct (status_enumeration example_status)
   \<and> ''stopped'' \<in> {COMPLETE example_status, STOPPED example_status, ERROR example_status}
   \<and> ''loading'' \<notin> set (status_enumeration example_status)
   \<and> buttons_view (updateButtons example_status ''reading'' example_popup)
       = (True, ''flex'', False, True, False)
   \<and> buttons_view (updateButtons example_status ''paused'' example_popup)
       = (True, ''flex'', True, False, False)
   \<and> buttons_view (updateButtons example_status ''stopped'' example_popup)
       = (False, ''flex'', True, True, True)
   \<and> buttons_view (updateButtons example_status ''loading'' example_popup)
       = (False, ''none'', True, True, True)"
proof -
  have d: "distinct (status_enumeration example_status)"
    by (simp add: status_enumeration_def example_status_def)
  have t: "''stopped'' \<in> {COMPLETE example_status, STOPPED example_status, ERROR example_status}"
    by (simp add: example_status_def)
  have u: "''loading'' \<notin> set (status_enumeration example_status)"
    by (simp add: status_enumeration_def example_status_def)
  have r: "READING example_status = ''reading''" "PAUSED example_status = ''paused''"
    by (simp_all add: example_status_def)
  show ?thesis
    using d t u
      updateButtons_table [OF d, of "''stopped''" example_popup example_popup]
      updateButtons_table [OF d, of "''loading''" example_popup example_popup]
    by (simp only: r [symmetric] simp_thms)
qed

text \<open>
  C1, as the code has it. When a tab is found and the response carries a non-empty
  \<^verbatim>\<open>status\<close>, the popup adopts that status. When the tab query or the send rejects (the
  content script is unreachable), the popup is reset to IDLE. When no active tab is
  found, or the send succeeds with no response or with a response that has no (or an
  empty) \<^verbatim>\<open>status\<close>, nothing is written and the popup stays as it was.
\<close>

theorem refreshStatus_cases:
  "(tabs_query ch = Returns (tab # rest) \<and>
      tabs_sendMessage ch tab (GET_STATUS M) = Delivered (Some (StatusResponse s r q)) \<and> s \<noteq> []
      \<longrightarrow> refreshStatus K M ch p = render K s p \<and> currentStatus (refreshStatus K M ch p) = s)
   \<and> (tabs_query ch = Throws m \<or>
        (tabs_query ch = Returns (tab # rest) \<and>
         tabs_sendMessage ch tab (GET_STATUS M) = LastError m)
      \<longrightarrow> refreshStatus K M ch p = render K (IDLE K) p \<and>
          currentStatus (refreshStatus K M ch p) = IDLE K)
   \<and> (tabs_query ch = Returns [] \<or>
        (tabs_query ch = Returns (tab # rest) \<and>
         (tabs_sendMessage ch tab (GET_STATUS M) = Delivered None \<or>
          (\<exists>resp. tabs_sendMessage ch tab (GET_STATUS M) = Delivered (Some resp) \<and>
                  response_status resp \<in> {None, Some []})))
      \<longrightarrow> refreshStatus K M ch p = p)"
  by (auto simp: refreshStatus_def sendMessageToTab_def)

theorem refreshStatus_cases_witness:
  "currentStatus (refreshStatus example_status example_types chrome_paused example_popup)
     = ''paused''
   \<and> currentStatus (refreshStatus example_status example_types chrome_unreachable example_popup)
     = ''idle''
   \<and> refreshStatus example_status example_types chrome_no_tab example_popup = example_popup"
proof -
  have a: "tabs_query chrome_paused = Returns (7 # []) \<and>
      tabs_sendMessage chrome_paused 7 (GET_STATUS example_types)
        = Delivered (Some (StatusResponse ''paused'' False True)) \<and> ''paused'' \<noteq> []"
    by (simp add: chrome_paused_def)
  have b: "tabs_query chrome_unreachable = Returns (7 # []) \<and>
      tabs_sendMessage chrome_unreachable 7 (GET_STATUS example_types)
        = LastError ''Receiving end does not exist.''"
    by (simp add: chrome_unreachable_def)
  have c: "tabs_query chrome_no_tab = Returns []"
    by (simp add: chrome_no_tab_def)
  have i: "IDLE example_status = ''idle''"
    by (simp add: example_status_def)
  show ?thesis
    using a b c i
      refreshStatus_cases [of chrome_paused 7 "[]" example_types "''paused''" False True
        example_status example_popup]
      refreshStatus_cases [of chrome_unreachable 7 "[]" example_types _ _ _
        example_status example_popup "''Receiving end does not exist.''"]
      refreshStatus_cases [of chrome_no_tab _ _ example_types _ _ _ example_status example_popup]
    by simp
qed

text \<open>
  C1 as the specification words it fails: with no active tab, and with a tab that sends
  no response, a popup showing READING keeps showing READING instead of going to IDLE.
\<close>

theorem refreshStatus_not_reset_counterexample:
  "currentStatus (refreshStatus example_status example_types chrome_no_tab example_popup)
     \<noteq> IDLE example_status
   \<and> currentStatus (refreshStatus example_status example_types chrome_no_response example_popup)
     \<noteq> IDLE example_status"
  by (simp add: refreshStatus_def sendMessageToTab_def example_defs)

text \<open>
  C4, as the code has it. A failing run of \<^verbatim>\<open>startReading\<close> ends with the popup showing
  ERROR (the cached status, the label and the buttons are those of ERROR) and with one
  line logged: the message of the rejection, or \<^verbatim>\<open>No active tab found\<close>. A run of
  \<^verbatim>\<open>pauseReading\<close>, \<^verbatim>\<open>resumeReading\<close> or \<^verbatim>\<open>stopReading\<close> in which the tab query or the send
  rejects logs exactly one line, its own prefix with the message of the rejection, and
  changes nothing else. A run of one of these three that finds no active tab does
  nothing at all: nothing is logged and the popup is as it was.
\<close>

theorem popup_failure_asymmetry:
  "(run_fails ch (START_READING M) \<longrightarrow>
      currentStatus (startReading K M ch p) = ERROR K \<and>
      statusElement_textContent (startReading K M ch p) = status_label K (ERROR K) \<and>
      buttons_view (startReading K M ch p) = buttons_view (updateButtons K (ERROR K) p))
   \<and> (rejection ch (START_READING M) = Some m \<longrightarrow>
        console_error (startReading K M ch p)
          = console_error p @ [(''Error starting reading:'', m)])
   \<and> (tabs_query ch = Returns [] \<longrightarrow>
        console_error (startReading K M ch p)
          = console_error p @ [(''Error starting reading:'', ''No active tab found'')])
   \<and> (rejection ch (PAUSE_READING M) = Some m \<longrightarrow>
        pauseReading K M ch p
          = p\<lparr>console_error := console_error p @ [(''Error pausing reading:'', m)]\<rparr>)
   \<and> (rejection ch (RESUME_READING M) = Some m \<longrightarrow>
        resumeReading K M ch p
          = p\<lparr>console_error := console_error p @ [(''Error resuming reading:'', m)]\<rparr>)
   \<and> (rejection ch (STOP_READING M) = Some m \<longrightarrow>
        stopReading K M ch p
          = p\<lparr>console_error := console_error p @ [(''Error stopping reading:'', m)]\<rparr>)
   \<and> (tabs_query ch = Returns [] \<longrightarrow>
        pauseReading K M ch p = p \<and> resumeReading K M ch p = p \<and> stopReading K M ch p = p)"
proof -
  have start: "currentStatus (startReading K M ch p) = ERROR K \<and>
      statusElement_textContent (startReading K M ch p) = status_label K (ERROR K) \<and>
      buttons_view (startReading K M ch p) = buttons_view (updateButtons K (ERROR K) p)"
    if "run_fails ch (START_READING M)"
    using that
    by (auto simp: run_fails_def startReading_def startReading_catch_def sendMessageToTab_def
          split: outcome.splits list.splits send_result.splits)
  have start_log: "console_error (startReading K M ch p)
          = console_error p @ [(''Error starting reading:'', m)]"
    if "rejection ch (START_READING M) = Some m"
    using that
    by (auto simp: rejection_def startReading_def startReading_catch_def sendMessageToTab_def
          log_error_def split: outcome.splits list.splits send_result.splits)
  have start_no_tab: "console_error (startReading K M ch p)
          = console_error p @ [(''Error starting reading:'', ''No active tab found'')]"
    if "tabs_query ch = Returns []"
    using that by (simp add: startReading_def startReading_catch_def log_error_def)
  have control: "control_operation K type target prefix ch p
      = p\<lparr>console_error := console_error p @ [(prefix, m)]\<rparr>"
    if "rejection ch type = Some m" for type target prefix
    using that
    by (auto simp: rejection_def control_operation_def sendMessageToTab_def log_error_def
          split: outcome.splits list.splits send_result.splits)
  have no_tab: "control_operation K type target prefix ch p = p"
    if "tabs_query ch = Returns []" for type target prefix
    using that by (simp add: control_operation_def)
  show ?thesis
    using start start_log start_no_tab control no_tab
    by (simp add: pauseReading_def resumeReading_def stopReading_def)
qed

theorem popup_failure_asymmetry_witness:
  "run_fails chrome_unreachable (START_READING example_types)
   \<and> currentStatus (startReading example_status example_types chrome_unreachable example_popup)
       = ''error''
   \<and> console_error (startReading example_status example_types chrome_unreachable example_popup)
       = [(''Error starting reading:'', ''Receiving end does not exist.'')]
   \<and> console_error (startReading example_status example_types chrome_no_tab example_popup)
       = [(''Error starting reading:'', ''No active tab found'')]
   \<and> pauseReading example_status example_types chrome_unreachable example_popup
       = example_popup\<lparr>console_error :=
           [(''Error pausing reading:'', ''Receiving end does not exist.'')]\<rparr>
   \<and> resumeReading example_status example_types chrome_unreachable example_popup
       = example_popup\<lparr>console_error :=
           [(''Error resuming reading:'', ''Receiving end does not exist.'')]\<rparr>
   \<and> stopReading example_status example_types chrome_unreachable example_popup
       = example_popup\<lparr>console_error :=
           [(''Error stopping reading:'', ''Receiving end does not exist.'')]\<rparr>
   \<and> pauseReading example_status example_types chrome_no_tab example_popup = example_popup
   \<and> resumeReading example_status example_types chrome_no_tab example_popup = example_popup
   \<and> stopReading example_status example_types chrome_no_tab example_popup = example_popup"
proof -
  have f: "run_fails chrome_unreachable (START_READING example_types)"
    by (simp add: run_fails_def chrome_unreachable_def)
  have r: "rejection chrome_unreachable t = Some ''Receiving end does not exist.''" for t
    by (simp add: rejection_def chrome_unreachable_def)
  have n: "tabs_query chrome_no_tab = Returns []"
    by (simp add: chrome_no_tab_def)
  have e: "ERROR example_status = ''error''" "console_error example_popup = []"
    by (simp_all add: example_status_def example_popup_def)
  show ?thesis
    using f r n e
      popup_failure_asymmetry [of chrome_unreachable example_types example_status example_popup
        "''Receiving end does not exist.''"]
      popup_failure_asymmetry [of chrome_no_tab example_types example_status example_popup]
    by simp
qed

text \<open>
  C4 as the specification words it fails for the three control operations when no active
  tab is found: the run fails, and nothing is logged.
\<close>

theorem control_no_tab_not_logged_counterexample:
  "run_fails chrome_no_tab (PAUSE_READING example_types)
   \<and> console_error (pauseReading example_status example_types chrome_no_tab example_popup) = []
   \<and> run_fails chrome_no_tab (RESUME_READING example_types)
   \<and> console_error (resumeReading example_status example_types chrome_no_tab example_popup) = []
   \<and> run_fails chrome_no_tab (STOP_READING example_types)
   \<and> console_error (stopReading example_status example_types chrome_no_tab example_popup) = []"
  by (simp add: run_fails_def chrome_no_tab_def pauseReading_def resumeReading_def
        stopReading_def control_operation_def example_popup_def)

text \<open>
  \<^verbatim>\<open>updateStatus\<close> stores any argument in the cache. The label falls back to the IDLE
  text for a status that is neither one of the six constants nor the name of a member of
  \<^verbatim>\<open>Object.prototype\<close>.
\<close>

lemma updateStatus_fallback:
  "currentStatus (updateStatus K s p) = s
   \<and> (s \<notin> set (status_enumeration K) \<and> s \<notin> fst ` set Object_prototype \<longrightarrow>
        statusElement_textContent (updateStatus K s p) = ''Ready to read'')"
proof -
  have "statusMessages K s = None" if "s \<notin> set (status_enumeration K)"
    using that by (simp add: statusMessages_def status_enumeration_def)
  moreover have "map_of Object_prototype s = None" if "s \<notin> fst ` set Object_prototype"
    using that by (simp add: map_of_eq_None_iff)
  ultimately show ?thesis
    by (simp add: updateStatus_def status_label_def)
qed

text \<open>
  C10 at the status \<^verbatim>\<open>'constructor'\<close>: it is outside the six values and the
  cache holds it, but the lookup \<^verbatim>\<open>statusMessages['constructor']\<close> finds the inherited
  \<^verbatim>\<open>Object\<close> function, which is truthy, so the fallback is not taken and the label is
  not the IDLE text.
\<close>

theorem updateStatus_inherited_key:
  "''constructor'' \<notin> set (status_enumeration example_status)
   \<and> currentStatus (updateStatus example_status ''constructor'' example_popup) = ''constructor''
   \<and> statusElement_textContent (updateStatus example_status ''constructor'' example_popup)
       = ''function Object() { [native code] }''
   \<and> statusElement_textContent (updateStatus example_status ''constructor'' example_popup)
       \<noteq> ''Ready to read''"
  by (simp add: updateStatus_def status_label_def statusMessages_def status_enumeration_def
        example_status_def Object_prototype_def native_function_text_def)

section \<open>Properties of the content script\<close>

lemmas action_defs =
  andThen_def tryCatch_def invoke_def succeed_def throw_def sendResponse_def
  console_error_content_def

lemmas spec_reader_defs =
  spec_startReading_def spec_pauseReading_def spec_resumeReading_def spec_stopReading_def
  spec_getStatus_def spec_isReading_def spec_isPaused_def

lemma trim_blank: "(\<forall>x\<in>set t. is_whitespace x) \<Longrightarrow> trim t = []"
proof -
  assume "\<forall>x\<in>set t. is_whitespace x"
  then have d: "dropWhile is_whitespace t = []" by (metis dropWhile_eq_Nil_conv)
  show ?thesis by (simp only: trim_def d rev.simps dropWhile.simps)
qed

lemma blank_iff: "(t = [] \<or> length (trim t) = 0) \<longleftrightarrow> (\<forall>x\<in>set t. is_whitespace x)"
proof
  assume "\<forall>x\<in>set t. is_whitespace x"
  then show "t = [] \<or> length (trim t) = 0" by (simp add: trim_blank)
next
  assume a: "t = [] \<or> length (trim t) = 0"
  show "\<forall>x\<in>set t. is_whitespace x"
  proof (cases "dropWhile is_whitespace t = []")
    case True
    then show ?thesis by simp
  next
    case False
    then have h: "\<not> is_whitespace (hd (dropWhile is_whitespace t))"
      by (rule hd_dropWhile)
    from False have "t \<noteq> []" by auto
    with a have "trim t = []" by simp
    then have "dropWhile is_whitespace (rev (dropWhile is_whitespace t)) = []"
      by (simp add: trim_def)
    then have "\<forall>x\<in>set (dropWhile is_whitespace t). is_whitespace x"
      by (metis dropWhile_eq_Nil_conv set_rev)
    with False h show ?thesis
      by (metis list.set_sel(1))
  qed
qed

lemma quiet_invoke: "ev \<in> A \<Longrightarrow> quiet A (invoke ev f)"
  by (auto simp: quiet_def invoke_def split: prod.splits)

lemma quiet_succeed: "quiet A (succeed x)"
  by (simp add: quiet_def succeed_def)

lemma quiet_throw: "quiet A (throw m)"
  by (simp add: quiet_def throw_def)

lemma quiet_console: "quiet A (console_error_content p m)"
  by (simp add: quiet_def console_error_content_def)

lemma quiet_if: "quiet A f \<Longrightarrow> quiet A g \<Longrightarrow> quiet A (if b then f else g)"
  by simp

lemma quiet_andThen:
  assumes "quiet A f" and "\<And>x. quiet A (g x)"
  shows "quiet A (andThen f g)"
  unfolding quiet_def
proof (intro allI)
  fix s
  obtain r s1 where f: "f s = (r, s1)" by (cases "f s")
  from assms(1) f obtain cs ls where
    1: "calls s1 = calls s @ cs" "set cs \<subseteq> A" "sent s1 = sent s" "logged s1 = logged s @ ls"
    unfolding quiet_def by (metis snd_conv)
  show "(\<exists>cs. calls (snd (andThen f g s)) = calls s @ cs \<and> set cs \<subseteq> A) \<and>
         sent (snd (andThen f g s)) = sent s \<and>
         (\<exists>ls. logged (snd (andThen f g s)) = logged s @ ls)"
  proof (cases r)
    case (Throws m)
    with f 1 show ?thesis by (simp add: andThen_def)
  next
    case (Returns x)
    from assms(2) [of x] obtain cs' ls' where
      2: "calls (snd (g x s1)) = calls s1 @ cs'" "set cs' \<subseteq> A"
         "sent (snd (g x s1)) = sent s1" "logged (snd (g x s1)) = logged s1 @ ls'"
      unfolding quiet_def by blast
    from Returns f have "andThen f g s = g x s1" by (simp add: andThen_def)
    with 1 2 show ?thesis by simp
  qed
qed

lemma quiet_tryCatch:
  assumes "quiet A f" and "\<And>m. quiet A (h m)"
  shows "quiet A (tryCatch f h)"
  unfolding quiet_def
proof (intro allI)
  fix s
  obtain r s1 where f: "f s = (r, s1)" by (cases "f s")
  from assms(1) f obtain cs ls where
    1: "calls s1 = calls s @ cs" "set cs \<subseteq> A" "sent s1 = sent s" "logged s1 = logged s @ ls"
    unfolding quiet_def by (metis snd_conv)
  show "(\<exists>cs. calls (snd (tryCatch f h s)) = calls s @ cs \<and> set cs \<subseteq> A) \<and>
         sent (snd (tryCatch f h s)) = sent s \<and>
         (\<exists>ls. logged (snd (tryCatch f h s)) = logged s @ ls)"
  proof (cases r)
    case (Returns x)
    with f 1 show ?thesis by (simp add: tryCatch_def)
  next
    case (Throws m)
    from assms(2) [of m] obtain cs' ls' where
      2: "calls (snd (h m s1)) = calls s1 @ cs'" "set cs' \<subseteq> A"
         "sent (snd (h m s1)) = sent s1" "logged (snd (h m s1)) = logged s1 @ ls'"
      unfolding quiet_def by blast
    from Throws f have "tryCatch f h s = h m s1" by (simp add: tryCatch_def)
    with 1 2 show ?thesis by simp
  qed
qed

lemmas quiet_intros =
  quiet_andThen quiet_tryCatch quiet_if quiet_invoke quiet_succeed quiet_throw quiet_console

lemma quiet_catch:
  "quiet {OverlayExists, OverlayUpdateStatus (ERROR K), OverlayUpdateButtons (ERROR K)}
     (startReading_content_catch c K m)"
  unfolding startReading_content_catch_def
  by (intro quiet_intros) simp_all

lemma try_blank:
  assumes "extractPageContent c (world s) = (Returns page_text, w1)"
    and "\<forall>x\<in>set page_text. is_whitespace x"
  shows "startReading_content_try c K s
           = (Throws ''No readable content found on this page'',
              s\<lparr>world := w1, calls := calls s @ [ExtractPageContent]\<rparr>)"
proof -
  from assms(2) have "page_text = [] \<or> length (trim page_text) = 0"
    using blank_iff [of page_text] by blast
  with assms(1) show ?thesis
    by (simp add: startReading_content_try_def andThen_def invoke_def throw_def)
qed

lemma catch_throws: "\<exists>m'. fst (startReading_content_catch c K m s) = Throws m' \<and>
   (m' = m \<or> (\<exists>w. fst (overlay_exists c w) = Throws m' \<or>
       fst (overlay_updateStatus c (ERROR K) w) = Throws m' \<or>
       fst (overlay_updateButtons c (ERROR K) w) = Throws m'))"
  unfolding startReading_content_catch_def action_defs
  by (auto split: prod.splits outcome.splits) (metis fst_conv)+

lemma quiet_calls_made:
  assumes "quiet A f"
  shows "set (calls_made s (snd (f s))) \<subseteq> A \<and> sent (snd (f s)) = sent s"
proof -
  from assms obtain cs where "calls (snd (f s)) = calls s @ cs" "set cs \<subseteq> A"
    unfolding quiet_def by blast
  moreover from assms have "sent (snd (f s)) = sent s"
    unfolding quiet_def by blast
  ultimately show ?thesis by (simp add: calls_made_def)
qed

lemma andThen_Returns: "f s = (Returns x, s') \<Longrightarrow> andThen f g s = g x s'"
  by (simp add: andThen_def)

lemma invoke_result:
  "method (world s) = (r, w) \<Longrightarrow> invoke ev method s = (r, s\<lparr>world := w, calls := calls s @ [ev]\<rparr>)"
  by (simp add: invoke_def)

lemma catch_logged:
  "\<exists>ls. logged (snd (startReading_content_catch c K m s))
          = logged s @ (''Error starting reading:'', m) # ls"
proof -
  define k :: "(unit, 'a) action" where "k =
     andThen (invoke OverlayExists (overlay_exists c)) (\<lambda>exists.
     andThen
       (if exists then
          andThen (invoke (OverlayUpdateStatus (ERROR K)) (overlay_updateStatus c (ERROR K))) (\<lambda>_.
          invoke (OverlayUpdateButtons (ERROR K)) (overlay_updateButtons c (ERROR K)))
        else succeed ()) (\<lambda>_.
     throw m))"
  define s0 where "s0 = s\<lparr>logged := logged s @ [(''Error starting reading:'', m)]\<rparr>"
  have "quiet UNIV k"
    unfolding k_def by (intro quiet_intros) simp_all
  then obtain ls where "logged (snd (k s0)) = logged s0 @ ls"
    unfolding quiet_def by blast
  moreover have "startReading_content_catch c K m s = k s0"
    by (simp add: startReading_content_catch_def k_def s0_def andThen_def console_error_content_def)
  ultimately show ?thesis by (simp add: s0_def)
qed

lemma handle_start:
  "handleMessage c K M (message_of (START_READING M)) s =
     (case startReading_content c K s of
        (Returns x, s') \<Rightarrow> (Returns (), s'\<lparr>sent := sent s' @ [Success]\<rparr>)
      | (Throws m, s') \<Rightarrow>
          (Returns (), s'\<lparr>logged := logged s' @ [(''Error handling message:'', m)],
                          sent := sent s' @ [ErrorResponse m]\<rparr>))"
  by (simp add: handleMessage_def message_of_def tryCatch_def andThen_def sendResponse_def
        console_error_content_def split: prod.splits outcome.splits)

text \<open>
  C3. When the extractor returns an empty or white-space-only string, the content
  script's \<^verbatim>\<open>startReading\<close> throws; the only calls it makes are the extraction and, in its
  \<^verbatim>\<open>catch\<close> block, \<^verbatim>\<open>overlay.exists\<close> and the two updates to ERROR, so the overlay is neither
  created nor shown; the failure is logged; and the handler of START_READING sends one
  response, the error object with the message of the error thrown (the message
  \<^verbatim>\<open>No readable content found on this page\<close>, unless the overlay itself throws in the
  \<^verbatim>\<open>catch\<close> block).
\<close>

theorem blank_content_fails:
  assumes "extractPageContent c (world s) = (Returns page_text, w1)"
    and "\<forall>x\<in>set page_text. is_whitespace x"
  shows "\<exists>m. fst (startReading_content c K s) = Throws m
     \<and> set (calls_made s (snd (startReading_content c K s)))
         \<subseteq> {ExtractPageContent, OverlayExists,
            OverlayUpdateStatus (ERROR K), OverlayUpdateButtons (ERROR K)}
     \<and> OverlayCreate \<notin> set (calls_made s (snd (startReading_content c K s)))
     \<and> OverlayShow \<notin> set (calls_made s (snd (startReading_content c K s)))
     \<and> (''Error starting reading:'', ''No readable content found on this page'')
         \<in> set (logged (snd (startReading_content c K s)))
     \<and> (m = ''No readable content found on this page'' \<or>
        (\<exists>w. fst (overlay_exists c w) = Throws m \<or>
             fst (overlay_updateStatus c (ERROR K) w) = Throws m \<or>
             fst (overlay_updateButtons c (ERROR K) w) = Throws m))
     \<and> sent (snd (handleMessage c K M (message_of (START_READING M)) s))
         = sent s @ [ErrorResponse m]"
proof -
  define msg where "msg = ''No readable content found on this page''"
  define s1 where "s1 = s\<lparr>world := w1, calls := calls s @ [ExtractPageContent]\<rparr>"
  define s2 where "s2 = snd (startReading_content_catch c K msg s1)"
  let ?A = "{OverlayExists, OverlayUpdateStatus (ERROR K), OverlayUpdateButtons (ERROR K)}"
  have body: "startReading_content_try c K s = (Throws msg, s1)"
    unfolding msg_def s1_def using assms by (rule try_blank)
  then have whole: "startReading_content c K s = startReading_content_catch c K msg s1"
    by (simp add: startReading_content_def tryCatch_def)
  obtain m where m: "fst (startReading_content_catch c K msg s1) = Throws m"
    and origin: "m = msg \<or> (\<exists>w. fst (overlay_exists c w) = Throws m \<or>
       fst (overlay_updateStatus c (ERROR K) w) = Throws m \<or>
       fst (overlay_updateButtons c (ERROR K) w) = Throws m)"
    using catch_throws [of c K msg s1] by blast
  from quiet_catch [of K c msg] obtain cs where
    cs: "calls s2 = calls s1 @ cs" "set cs \<subseteq> ?A" and sent: "sent s2 = sent s1"
    unfolding quiet_def s2_def by blast
  from cs have made: "calls_made s s2 = ExtractPageContent # cs"
    by (simp add: calls_made_def s1_def)
  from catch_logged [of c K msg s1] have log: "(''Error starting reading:'', msg) \<in> set (logged s2)"
    unfolding s2_def by auto
  have pair: "startReading_content c K s = (Throws m, s2)"
    using whole m by (simp add: s2_def prod_eq_iff)
  have "sent (snd (handleMessage c K M (message_of (START_READING M)) s)) = sent s @ [ErrorResponse m]"
    using pair sent by (simp add: handle_start s1_def)
  moreover have "set (calls_made s s2) \<subseteq> insert ExtractPageContent ?A"
    using made cs(2) by auto
  moreover have "OverlayCreate \<notin> set (calls_made s s2)" "OverlayShow \<notin> set (calls_made s s2)"
    using made cs(2) by auto
  ultimately show ?thesis
    using pair log origin unfolding msg_def by auto
qed

theorem blank_content_fails_witness:
  "extractPageContent (example_collaborators blank_text) (world (loaded example_page_at_load))
     = (Returns blank_text, example_page_at_load)
   \<and> sent (snd (handleMessage (example_collaborators blank_text) example_status example_types
        (message_of (START_READING example_types)) (loaded example_page_at_load)))
       = [ErrorResponse ''No readable content found on this page'']
   \<and> OverlayCreate \<notin> set (calls_made (loaded example_page_at_load)
        (snd (startReading_content (example_collaborators blank_text) example_status
           (loaded example_page_at_load))))
   \<and> OverlayShow \<notin> set (calls_made (loaded example_page_at_load)
        (snd (startReading_content (example_collaborators blank_text) example_status
           (loaded example_page_at_load))))"
proof -
  have a: "extractPageContent (example_collaborators blank_text)
      (world (loaded example_page_at_load)) = (Returns blank_text, example_page_at_load)"
    by (simp add: example_collaborators_def loaded_def)
  have b: "\<forall>x\<in>set blank_text. is_whitespace x"
    by (simp add: blank_text_def is_whitespace_def)
  have never: "fst (overlay_exists (example_collaborators blank_text) w) \<noteq> Throws m"
    "fst (overlay_updateStatus (example_collaborators blank_text) st w) \<noteq> Throws m"
    "fst (overlay_updateButtons (example_collaborators blank_text) st w) \<noteq> Throws m"
    for w st m
    by (simp_all add: example_collaborators_def)
  have l: "sent (loaded example_page_at_load) = []"
    by (simp add: loaded_def)
  show ?thesis
    using a b never l
      blank_content_fails [OF a b, of example_status example_types]
    by auto
qed

text \<open>
  C5. A message whose type is none of the five recognized types gets the one response
  \<^verbatim>\<open>{error: 'Unknown message type'}\<close>, and nothing else changes: the collaborators' state
  is the same, no call has been made on any of them, and nothing is logged.
\<close>

theorem unknown_type_no_mutation:
  assumes "msg_type message \<notin> set (recognized_types M)"
  shows "handleMessage c K M message s
           = (Returns (), s\<lparr>sent := sent s @ [ErrorResponse ''Unknown message type'']\<rparr>)
       \<and> world (snd (handleMessage c K M message s)) = world s
       \<and> calls (snd (handleMessage c K M message s)) = calls s
       \<and> logged (snd (handleMessage c K M message s)) = logged s"
  using assms by (simp add: handleMessage_def recognized_types_def tryCatch_def sendResponse_def)

theorem unknown_type_no_mutation_witness:
  "msg_type (message_of ''PING'') \<notin> set (recognized_types example_types)
   \<and> handleMessage (example_collaborators example_text) example_status example_types
       (message_of ''PING'') (loaded example_page_at_load)
     = (Returns (),
        (loaded example_page_at_load)\<lparr>sent := [ErrorResponse ''Unknown message type'']\<rparr>)"
proof -
  have a: "msg_type (message_of ''PING'') \<notin> set (recognized_types example_types)"
    by (simp add: message_of_def recognized_types_def example_types_def)
  have l: "sent (loaded example_page_at_load) = []"
    by (simp add: loaded_def)
  show ?thesis
    using a l
      unknown_type_no_mutation [OF a, of "example_collaborators example_text" example_status
        "loaded example_page_at_load"]
    by simp
qed

lemma quiet_rest:
  "quiet {OverlayShow, OverlayUpdateStatus (IDLE K), OverlayUpdateButtons (IDLE K),
          ReaderStartReading content}
     (andThen (succeed ()) (\<lambda>_.
      andThen (invoke OverlayShow (overlay_show c)) (\<lambda>_.
      andThen (invoke (OverlayUpdateStatus (IDLE K)) (overlay_updateStatus c (IDLE K))) (\<lambda>_.
      andThen (invoke (OverlayUpdateButtons (IDLE K)) (overlay_updateButtons c (IDLE K))) (\<lambda>_.
      invoke (ReaderStartReading content) (pageReader_startReading c content))))))"
  by (intro quiet_intros) simp_all

lemma try_existing:
  assumes "extractPageContent c (world s) = (Returns content, w1)"
    and "\<not> (\<forall>x\<in>set content. is_whitespace x)"
    and "overlay_exists c w1 = (Returns True, w2)"
  shows "startReading_content_try c K s =
     (andThen (succeed ()) (\<lambda>_.
      andThen (invoke OverlayShow (overlay_show c)) (\<lambda>_.
      andThen (invoke (OverlayUpdateStatus (IDLE K)) (overlay_updateStatus c (IDLE K))) (\<lambda>_.
      andThen (invoke (OverlayUpdateButtons (IDLE K)) (overlay_updateButtons c (IDLE K))) (\<lambda>_.
      invoke (ReaderStartReading content) (pageReader_startReading c content))))))
       (s\<lparr>world := w2, calls := calls s @ [ExtractPageContent, OverlayExists]\<rparr>)"
proof -
  define s1 where "s1 = s\<lparr>world := w1, calls := calls s @ [ExtractPageContent]\<rparr>"
  from assms(2) have nb: "\<not> (content = [] \<or> length (trim content) = 0)"
    using blank_iff [of content] by blast
  have 1: "invoke ExtractPageContent (extractPageContent c) s = (Returns content, s1)"
    unfolding s1_def using assms(1) by (rule invoke_result)
  have "overlay_exists c (world s1) = (Returns True, w2)"
    using assms(3) by (simp add: s1_def)
  then have 2: "invoke OverlayExists (overlay_exists c) s1
      = (Returns True, s1\<lparr>world := w2, calls := calls s1 @ [OverlayExists]\<rparr>)"
    by (rule invoke_result)
  have 3: "s1\<lparr>world := w2, calls := calls s1 @ [OverlayExists]\<rparr>
      = s\<lparr>world := w2, calls := calls s @ [ExtractPageContent, OverlayExists]\<rparr>"
    by (simp add: s1_def)
  show ?thesis
    unfolding startReading_content_try_def
    by (simp only: andThen_Returns [where f = "invoke ExtractPageContent (extractPageContent c)"
          and s = s, OF 1] nb if_False
        andThen_Returns [where f = "invoke OverlayExists (overlay_exists c)" and s = s1, OF 2]
        3 not_True_eq_False)
qed

text \<open>
  C7. When the extractor returns readable text and \<^verbatim>\<open>overlay.exists()\<close> returns true, as
  on a second \<^verbatim>\<open>startReading\<close> after a first one has created the overlay, the run
  reaches the overlay step (its first two calls are the extraction and
  \<^verbatim>\<open>overlay.exists\<close>) and never calls \<^verbatim>\<open>overlay.create\<close>; when the overlay's methods
  return, the calls that follow are \<^verbatim>\<open>show\<close>, the two updates to IDLE and the start of
  the reader.
\<close>

theorem existing_overlay_not_created:
  assumes "extractPageContent c (world s) = (Returns content, w1)"
    and "\<not> (\<forall>x\<in>set content. is_whitespace x)"
    and "overlay_exists c w1 = (Returns True, w2)"
  shows "OverlayCreate \<notin> set (calls_made s (snd (startReading_content c K s)))
     \<and> take 2 (calls_made s (snd (startReading_content c K s)))
         = [ExtractPageContent, OverlayExists]
     \<and> (overlay_show c w2 = (Returns (), w3) \<and>
        overlay_updateStatus c (IDLE K) w3 = (Returns (), w4) \<and>
        overlay_updateButtons c (IDLE K) w4 = (Returns (), w5) \<longrightarrow>
        take 6 (calls_made s (snd (startReading_content c K s)))
          = [ExtractPageContent, OverlayExists, OverlayShow, OverlayUpdateStatus (IDLE K),
             OverlayUpdateButtons (IDLE K), ReaderStartReading content])"
proof -
  let ?B = "{OverlayShow, OverlayUpdateStatus (IDLE K), OverlayUpdateButtons (IDLE K),
             ReaderStartReading content}"
  let ?A = "{OverlayExists, OverlayUpdateStatus (ERROR K), OverlayUpdateButtons (ERROR K)}"
  define s2 where "s2 = s\<lparr>world := w2, calls := calls s @ [ExtractPageContent, OverlayExists]\<rparr>"
  define rest :: "(unit, 'a) action" where "rest =
     andThen (succeed ()) (\<lambda>_.
      andThen (invoke OverlayShow (overlay_show c)) (\<lambda>_.
      andThen (invoke (OverlayUpdateStatus (IDLE K)) (overlay_updateStatus c (IDLE K))) (\<lambda>_.
      andThen (invoke (OverlayUpdateButtons (IDLE K)) (overlay_updateButtons c (IDLE K))) (\<lambda>_.
      invoke (ReaderStartReading content) (pageReader_startReading c content)))))"
  have body: "startReading_content_try c K s = rest s2"
    unfolding rest_def s2_def using assms by (rule try_existing)
  have "quiet ?B rest"
    unfolding rest_def by (rule quiet_rest)
  then obtain cs where cs: "calls (snd (rest s2)) = calls s2 @ cs" "set cs \<subseteq> ?B"
    unfolding quiet_def by blast
  obtain r s3 where r: "rest s2 = (r, s3)" by (cases "rest s2")
  have "\<exists>cs'. calls (snd (startReading_content c K s)) = calls s3 @ cs' \<and> set cs' \<subseteq> ?A"
  proof (cases r)
    case (Returns x)
    then have "snd (startReading_content c K s) = s3"
      using body r by (simp add: startReading_content_def tryCatch_def)
    then show ?thesis by simp
  next
    case (Throws m)
    then have "startReading_content c K s = startReading_content_catch c K m s3"
      using body r by (simp add: startReading_content_def tryCatch_def)
    then show ?thesis
      using quiet_catch [of K c m] unfolding quiet_def by simp
  qed
  then obtain cs' where cs': "calls (snd (startReading_content c K s)) = calls s3 @ cs'"
    "set cs' \<subseteq> ?A" by blast
  from cs r have s3: "calls s3 = calls s @ [ExtractPageContent, OverlayExists] @ cs"
    by (simp add: s2_def)
  have made: "calls_made s (snd (startReading_content c K s))
      = [ExtractPageContent, OverlayExists] @ cs @ cs'"
    using cs' s3 by (simp add: calls_made_def)
  have no_create: "OverlayCreate \<notin> set (calls_made s (snd (startReading_content c K s)))"
    using made cs(2) cs'(2) by auto
  have first: "take 2 (calls_made s (snd (startReading_content c K s)))
      = [ExtractPageContent, OverlayExists]"
    using made by simp
  have six: "take 6 (calls_made s (snd (startReading_content c K s)))
          = [ExtractPageContent, OverlayExists, OverlayShow, OverlayUpdateStatus (IDLE K),
             OverlayUpdateButtons (IDLE K), ReaderStartReading content]"
    if h: "overlay_show c w2 = (Returns (), w3)"
      "overlay_updateStatus c (IDLE K) w3 = (Returns (), w4)"
      "overlay_updateButtons c (IDLE K) w4 = (Returns (), w5)"
  proof -
    have "calls (snd (rest s2)) = calls s2 @ [OverlayShow, OverlayUpdateStatus (IDLE K),
             OverlayUpdateButtons (IDLE K), ReaderStartReading content]"
      using h by (simp add: rest_def s2_def andThen_def succeed_def invoke_def split: prod.splits)
    with cs have "cs = [OverlayShow, OverlayUpdateStatus (IDLE K),
             OverlayUpdateButtons (IDLE K), ReaderStartReading content]"
      by simp
    with made show ?thesis by simp
  qed
  show ?thesis
    using no_create first six by blast
qed

theorem existing_overlay_not_created_witness:
  "extractPageContent (example_collaborators example_text) (world after_first_start)
     = (Returns example_text, world after_first_start)
   \<and> overlay_exists (example_collaborators example_text) (world after_first_start)
     = (Returns True, world after_first_start)
   \<and> OverlayCreate \<in> set (calls after_first_start)
   \<and> OverlayCreate \<notin> set (calls_made after_first_start
        (snd (startReading_content (example_collaborators example_text) example_status
           after_first_start)))"
proof -
  have nb: "\<not> (\<forall>x\<in>set example_text. is_whitespace x)"
    by (simp add: example_text_def is_whitespace_def)
  then have nb': "\<not> (example_text = [] \<or> length (trim example_text) = 0)"
    using blank_iff [of example_text] by blast
  have first: "after_first_start =
      \<lparr>world = \<lparr>pageReader_state = ''reading'', overlay_present = True, overlay_shown = True\<rparr>,
       calls = [ExtractPageContent, OverlayExists, OverlayCreate, OverlayShow,
                OverlayUpdateStatus ''idle'', OverlayUpdateButtons ''idle'',
                ReaderStartReading example_text],
       sent = [], logged = []\<rparr>"
    using nb'
    by (simp add: after_first_start_def startReading_content_def startReading_content_try_def
          action_defs example_collaborators_def loaded_def example_page_at_load_def
          spec_startReading_def example_status_def)
  have a: "extractPageContent (example_collaborators example_text) (world after_first_start)
      = (Returns example_text, world after_first_start)"
    by (simp add: example_collaborators_def)
  have b: "overlay_exists (example_collaborators example_text) (world after_first_start)
      = (Returns True, world after_first_start)"
    by (simp add: example_collaborators_def first)
  have c: "OverlayCreate \<in> set (calls after_first_start)"
    by (simp add: first)
  show ?thesis
    using a nb b c existing_overlay_not_created [OF a nb b, of example_status]
    by simp
qed

lemma quiet_startReading_content: "quiet UNIV (startReading_content c K)"
  unfolding startReading_content_def startReading_content_try_def startReading_content_catch_def
  by (intro quiet_intros) simp_all

lemma status_branch:
  "andThen a (\<lambda>x. andThen b (\<lambda>y. andThen d (\<lambda>z. sendResponse (StatusResponse x y z))))
   = andThen (andThen a (\<lambda>x. andThen b (\<lambda>y. andThen d (\<lambda>z. succeed (x, y, z)))))
       (\<lambda>t. sendResponse (case t of (x, y, z) \<Rightarrow> StatusResponse x y z))"
  by (rule ext) (simp add: andThen_def succeed_def split: prod.splits outcome.splits)

lemma answer_tryCatch:
  "tryCatch (andThen f (\<lambda>x. sendResponse (g x)))
     (\<lambda>m. andThen (console_error_content ''Error handling message:'' m)
        (\<lambda>_. sendResponse (ErrorResponse m))) s
   = answer g (f s)"
proof -
  obtain r s1 where f: "f s = (r, s1)" by (cases "f s")
  show ?thesis
    by (cases r)
       (simp_all add: f tryCatch_def andThen_def sendResponse_def console_error_content_def)
qed

lemma sent_answer:
  assumes "quiet A f"
  shows "sent (snd (answer g (f s))) = sent s @ [reply g (fst (f s))]
       \<and> fst (answer g (f s)) = Returns ()"
proof -
  obtain r s1 where f: "f s = (r, s1)" by (cases "f s")
  with assms have "sent s1 = sent s"
    unfolding quiet_def by (metis snd_conv)
  then show ?thesis
    by (cases r) (simp_all add: f)
qed

lemma fst_invoke: "fst (invoke ev method s) = fst (method (world s))"
  by (simp add: invoke_def split: prod.splits)

text \<open>
  C9. Whatever the message and whatever the collaborators do, one run of \<^verbatim>\<open>handleMessage\<close>
  returns and calls \<^verbatim>\<open>sendResponse\<close> exactly once, and the response is the one its branch
  owes the action it dispatched. For START_READING the action is the content script's
  \<^verbatim>\<open>startReading\<close>; for PAUSE_READING, RESUME_READING and STOP_READING it is the
  reader's method; each is answered \<^verbatim>\<open>{success: true}\<close> when it returns and
  \<^verbatim>\<open>{error: error.message}\<close> when it throws. For GET_STATUS the action is the three
  reads of the reader, answered with the status object of the values read, or with the
  error object of the first read that throws. Any other type is answered
  \<^verbatim>\<open>{error: 'Unknown message type'}\<close>. After a throw the top-level \<^verbatim>\<open>catch\<close> has logged the
  message it sends; otherwise the state is the one the action left, with the response
  added.
\<close>

theorem handleMessage_responds_once:
  "fst (handleMessage c K M message s) = Returns ()
   \<and> (\<exists>r. sent (snd (handleMessage c K M message s)) = sent s @ [r])
   \<and> (msg_type message = START_READING M \<longrightarrow>
        handleMessage c K M message s = answer (\<lambda>x. Success) (startReading_content c K s) \<and>
        sent (snd (handleMessage c K M message s))
          = sent s @ [reply (\<lambda>x. Success) (fst (startReading_content c K s))])
   \<and> (msg_type message \<noteq> START_READING M \<and> msg_type message = PAUSE_READING M \<longrightarrow>
        handleMessage c K M message s
          = answer (\<lambda>x. Success) (invoke ReaderPauseReading (pageReader_pauseReading c) s) \<and>
        sent (snd (handleMessage c K M message s))
          = sent s @ [reply (\<lambda>x. Success) (fst (pageReader_pauseReading c (world s)))])
   \<and> (msg_type message \<notin> {START_READING M, PAUSE_READING M} \<and>
      msg_type message = RESUME_READING M \<longrightarrow>
        handleMessage c K M message s
          = answer (\<lambda>x. Success) (invoke ReaderResumeReading (pageReader_resumeReading c) s) \<and>
        sent (snd (handleMessage c K M message s))
          = sent s @ [reply (\<lambda>x. Success) (fst (pageReader_resumeReading c (world s)))])
   \<and> (msg_type message \<notin> {START_READING M, PAUSE_READING M, RESUME_READING M} \<and>
      msg_type message = STOP_READING M \<longrightarrow>
        handleMessage c K M message s
          = answer (\<lambda>x. Success) (invoke ReaderStopReading (pageReader_stopReading c) s) \<and>
        sent (snd (handleMessage c K M message s))
          = sent s @ [reply (\<lambda>x. Success) (fst (pageReader_stopReading c (world s)))])
   \<and> (msg_type message
        \<notin> {START_READING M, PAUSE_READING M, RESUME_READING M, STOP_READING M} \<and>
      msg_type message = GET_STATUS M \<longrightarrow>
        handleMessage c K M message s
          = answer (\<lambda>(status, isReading, isPaused). StatusResponse status isReading isPaused)
              (andThen (invoke ReaderGetStatus (pageReader_getStatus c)) (\<lambda>status.
               andThen (invoke ReaderIsReading (pageReader_isReading c)) (\<lambda>isReading.
               andThen (invoke ReaderIsPaused (pageReader_isPaused c)) (\<lambda>isPaused.
               succeed (status, isReading, isPaused)))) s) \<and>
        sent (snd (handleMessage c K M message s))
          = sent s @
            [reply (\<lambda>(status, isReading, isPaused). StatusResponse status isReading isPaused)
              (fst (andThen (invoke ReaderGetStatus (pageReader_getStatus c)) (\<lambda>status.
                    andThen (invoke ReaderIsReading (pageReader_isReading c)) (\<lambda>isReading.
                    andThen (invoke ReaderIsPaused (pageReader_isPaused c)) (\<lambda>isPaused.
                    succeed (status, isReading, isPaused)))) s))])
   \<and> (msg_type message \<notin> set (recognized_types M) \<longrightarrow>
        handleMessage c K M message s
          = (Returns (), s\<lparr>sent := sent s @ [ErrorResponse ''Unknown message type'']\<rparr>))"
proof -
  let ?t = "msg_type message"
  let ?catch = "\<lambda>m. andThen (console_error_content ''Error handling message:'' m)
             (\<lambda>_. sendResponse (ErrorResponse m))"
  define reads :: "(string \<times> bool \<times> bool, 'a) action" where "reads =
       andThen (invoke ReaderGetStatus (pageReader_getStatus c)) (\<lambda>status.
       andThen (invoke ReaderIsReading (pageReader_isReading c)) (\<lambda>isReading.
       andThen (invoke ReaderIsPaused (pageReader_isPaused c)) (\<lambda>isPaused.
       succeed (status, isReading, isPaused))))"
  have q_reads: "quiet UNIV reads"
    unfolding reads_def by (intro quiet_intros) simp_all
  have u: "?t \<notin> set (recognized_types M) \<longleftrightarrow>
      ?t \<noteq> START_READING M \<and> ?t \<noteq> PAUSE_READING M \<and> ?t \<noteq> RESUME_READING M \<and>
      ?t \<noteq> STOP_READING M \<and> ?t \<noteq> GET_STATUS M"
    by (simp add: recognized_types_def)
  have start: "handleMessage c K M message s
      = answer (\<lambda>x. Success) (startReading_content c K s)"
    if "?t = START_READING M"
    using that by (simp add: handleMessage_def answer_tryCatch)
  have pause: "handleMessage c K M message s
      = answer (\<lambda>x. Success) (invoke ReaderPauseReading (pageReader_pauseReading c) s)"
    if "?t \<noteq> START_READING M" "?t = PAUSE_READING M"
    using that by (simp add: handleMessage_def answer_tryCatch)
  have resume: "handleMessage c K M message s
      = answer (\<lambda>x. Success) (invoke ReaderResumeReading (pageReader_resumeReading c) s)"
    if "?t \<noteq> START_READING M" "?t \<noteq> PAUSE_READING M" "?t = RESUME_READING M"
    using that by (simp add: handleMessage_def answer_tryCatch)
  have stop: "handleMessage c K M message s
      = answer (\<lambda>x. Success) (invoke ReaderStopReading (pageReader_stopReading c) s)"
    if "?t \<noteq> START_READING M" "?t \<noteq> PAUSE_READING M" "?t \<noteq> RESUME_READING M"
      "?t = STOP_READING M"
    using that by (simp add: handleMessage_def answer_tryCatch)
  have status: "handleMessage c K M message s
      = answer (\<lambda>(status, isReading, isPaused). StatusResponse status isReading isPaused)
          (reads s)"
    if "?t \<noteq> START_READING M" "?t \<noteq> PAUSE_READING M" "?t \<noteq> RESUME_READING M"
      "?t \<noteq> STOP_READING M" "?t = GET_STATUS M"
  proof -
    from that have "handleMessage c K M message =
        tryCatch (andThen reads
            (\<lambda>t. sendResponse (case t of (x, y, z) \<Rightarrow> StatusResponse x y z))) ?catch"
      by (simp add: handleMessage_def status_branch reads_def)
    then show ?thesis by (simp add: answer_tryCatch)
  qed
  have unknown: "handleMessage c K M message s
      = (Returns (), s\<lparr>sent := sent s @ [ErrorResponse ''Unknown message type'']\<rparr>)"
    if "?t \<notin> set (recognized_types M)"
    using that by (simp add: handleMessage_def recognized_types_def tryCatch_def sendResponse_def)
  note q_start = sent_answer [OF quiet_startReading_content, of "\<lambda>x. Success" c K s]
  note q_pause = sent_answer [OF quiet_invoke [of ReaderPauseReading UNIV
        "pageReader_pauseReading c"], of "\<lambda>x. Success" s, simplified fst_invoke]
  note q_resume = sent_answer [OF quiet_invoke [of ReaderResumeReading UNIV
        "pageReader_resumeReading c"], of "\<lambda>x. Success" s, simplified fst_invoke]
  note q_stop = sent_answer [OF quiet_invoke [of ReaderStopReading UNIV
        "pageReader_stopReading c"], of "\<lambda>x. Success" s, simplified fst_invoke]
  note q_status = sent_answer [OF q_reads,
      of "\<lambda>(status, isReading, isPaused). StatusResponse status isReading isPaused" s]
  have once: "fst (handleMessage c K M message s) = Returns () \<and>
      (\<exists>r. sent (snd (handleMessage c K M message s)) = sent s @ [r])"
  proof -
    consider "?t = START_READING M"
      | "?t \<noteq> START_READING M" "?t = PAUSE_READING M"
      | "?t \<noteq> START_READING M" "?t \<noteq> PAUSE_READING M" "?t = RESUME_READING M"
      | "?t \<noteq> START_READING M" "?t \<noteq> PAUSE_READING M" "?t \<noteq> RESUME_READING M"
        "?t = STOP_READING M"
      | "?t \<noteq> START_READING M" "?t \<noteq> PAUSE_READING M" "?t \<noteq> RESUME_READING M"
        "?t \<noteq> STOP_READING M" "?t = GET_STATUS M"
      | "?t \<notin> set (recognized_types M)"
      using u by blast
    then show ?thesis
    proof cases
      case 1 with start q_start show ?thesis by simp
    next
      case 2 with pause q_pause show ?thesis by simp
    next
      case 3 with resume q_resume show ?thesis by simp
    next
      case 4 with stop q_stop show ?thesis by simp
    next
      case 5 with status q_status show ?thesis by simp
    next
      case 6 with unknown show ?thesis by simp
    qed
  qed
  have c_start: "?t = START_READING M \<longrightarrow>
        handleMessage c K M message s = answer (\<lambda>x. Success) (startReading_content c K s) \<and>
        sent (snd (handleMessage c K M message s))
          = sent s @ [reply (\<lambda>x. Success) (fst (startReading_content c K s))]"
    using start q_start by simp
  have c_pause: "?t \<noteq> START_READING M \<and> ?t = PAUSE_READING M \<longrightarrow>
        handleMessage c K M message s
          = answer (\<lambda>x. Success) (invoke ReaderPauseReading (pageReader_pauseReading c) s) \<and>
        sent (snd (handleMessage c K M message s))
          = sent s @ [reply (\<lambda>x. Success) (fst (pageReader_pauseReading c (world s)))]"
  proof (intro impI)
    assume "?t \<noteq> START_READING M \<and> ?t = PAUSE_READING M"
    then have e: "handleMessage c K M message s
        = answer (\<lambda>x. Success) (invoke ReaderPauseReading (pageReader_pauseReading c) s)"
      using pause by blast
    show "handleMessage c K M message s
          = answer (\<lambda>x. Success) (invoke ReaderPauseReading (pageReader_pauseReading c) s) \<and>
        sent (snd (handleMessage c K M message s))
          = sent s @ [reply (\<lambda>x. Success) (fst (pageReader_pauseReading c (world s)))]"
      using q_pause by (simp add: e)
  qed
  have c_resume: "?t \<notin> {START_READING M, PAUSE_READING M} \<and> ?t = RESUME_READING M \<longrightarrow>
        handleMessage c K M message s
          = answer (\<lambda>x. Success) (invoke ReaderResumeReading (pageReader_resumeReading c) s) \<and>
        sent (snd (handleMessage c K M message s))
          = sent s @ [reply (\<lambda>x. Success) (fst (pageReader_resumeReading c (world s)))]"
  proof (intro impI)
    assume "?t \<notin> {START_READING M, PAUSE_READING M} \<and> ?t = RESUME_READING M"
    then have "?t \<noteq> START_READING M" "?t \<noteq> PAUSE_READING M" "?t = RESUME_READING M"
      by auto
    then have e: "handleMessage c K M message s
        = answer (\<lambda>x. Success) (invoke ReaderResumeReading (pageReader_resumeReading c) s)"
      by (rule resume)
    show "handleMessage c K M message s
          = answer (\<lambda>x. Success) (invoke ReaderResumeReading (pageReader_resumeReading c) s) \<and>
        sent (snd (handleMessage c K M message s))
          = sent s @ [reply (\<lambda>x. Success) (fst (pageReader_resumeReading c (world s)))]"
      using q_resume by (simp add: e)
  qed
  have c_stop: "?t \<notin> {START_READING M, PAUSE_READING M, RESUME_READING M} \<and>
      ?t = STOP_READING M \<longrightarrow>
        handleMessage c K M message s
          = answer (\<lambda>x. Success) (invoke ReaderStopReading (pageReader_stopReading c) s) \<and>
        sent (snd (handleMessage c K M message s))
          = sent s @ [reply (\<lambda>x. Success) (fst (pageReader_stopReading c (world s)))]"
  proof (intro impI)
    assume "?t \<notin> {START_READING M, PAUSE_READING M, RESUME_READING M} \<and>
      ?t = STOP_READING M"
    then have "?t \<noteq> START_READING M" "?t \<noteq> PAUSE_READING M" "?t \<noteq> RESUME_READING M"
      "?t = STOP_READING M"
      by auto
    then have e: "handleMessage c K M message s
        = answer (\<lambda>x. Success) (invoke ReaderStopReading (pageReader_stopReading c) s)"
      by (rule stop)
    show "handleMessage c K M message s
          = answer (\<lambda>x. Success) (invoke ReaderStopReading (pageReader_stopReading c) s) \<and>
        sent (snd (handleMessage c K M message s))
          = sent s @ [reply (\<lambda>x. Success) (fst (pageReader_stopReading c (world s)))]"
      using q_stop by (simp add: e)
  qed
  have c_status: "?t \<notin> {START_READING M, PAUSE_READING M, RESUME_READING M, STOP_READING M} \<and>
      ?t = GET_STATUS M \<longrightarrow>
        handleMessage c K M message s
          = answer (\<lambda>(status, isReading, isPaused). StatusResponse status isReading isPaused)
              (reads s) \<and>
        sent (snd (handleMessage c K M message s))
          = sent s @
            [reply (\<lambda>(status, isReading, isPaused). StatusResponse status isReading isPaused)
              (fst (reads s))]"
  proof (intro impI)
    assume "?t \<notin> {START_READING M, PAUSE_READING M, RESUME_READING M, STOP_READING M} \<and>
      ?t = GET_STATUS M"
    then have "?t \<noteq> START_READING M" "?t \<noteq> PAUSE_READING M" "?t \<noteq> RESUME_READING M"
      "?t \<noteq> STOP_READING M" "?t = GET_STATUS M"
      by auto
    then have e: "handleMessage c K M message s
        = answer (\<lambda>(status, isReading, isPaused). StatusResponse status isReading isPaused)
            (reads s)"
      by (rule status)
    show "handleMessage c K M message s
          = answer (\<lambda>(status, isReading, isPaused). StatusResponse status isReading isPaused)
              (reads s) \<and>
        sent (snd (handleMessage c K M message s))
          = sent s @
            [reply (\<lambda>(status, isReading, isPaused). StatusResponse status isReading isPaused)
              (fst (reads s))]"
      using q_status by (simp add: e)
  qed
  have c_unknown: "?t \<notin> set (recognized_types M) \<longrightarrow>
        handleMessage c K M message s
          = (Returns (), s\<lparr>sent := sent s @ [ErrorResponse ''Unknown message type'']\<rparr>)"
    using unknown by simp
  show ?thesis
    unfolding reads_def [symmetric]
    using once c_start c_pause c_resume c_stop c_status c_unknown
    by (intro conjI) blast+
qed


theorem handleMessage_responds_once_witness:
  "sent (snd (handleMessage (example_collaborators example_text) example_status example_types
      (message_of ''PAUSE_READING'') (loaded example_page_at_load))) = [Success]
   \<and> sent (snd (handleMessage (broken_collaborators example_text) example_status example_types
      (message_of ''PAUSE_READING'') (loaded example_page_at_load))) = [ErrorResponse ''boom'']
   \<and> logged (snd (handleMessage (broken_collaborators example_text) example_status example_types
      (message_of ''PAUSE_READING'') (loaded example_page_at_load)))
       = [(''Error handling message:'', ''boom'')]
   \<and> sent (snd (handleMessage (example_collaborators blank_text) example_status example_types
      (message_of ''START_READING'') (loaded example_page_at_load)))
       = [ErrorResponse ''No readable content found on this page'']
   \<and> sent (snd (handleMessage (example_collaborators example_text) example_status example_types
      (message_of ''GET_STATUS'') (loaded example_page_at_load)))
       = [StatusResponse ''idle'' False False]
   \<and> sent (snd (handleMessage (example_collaborators example_text) example_status example_types
      (message_of ''PING'') (loaded example_page_at_load)))
       = [ErrorResponse ''Unknown message type'']"
proof -
  let ?s = "loaded example_page_at_load"
  have l: "sent ?s = []" "logged ?s = []" "world ?s = example_page_at_load"
    by (simp_all add: loaded_def)
  have t: "msg_type (message_of x) = x" for x
    by (simp add: message_of_def)
  have M: "START_READING example_types = ''START_READING''"
    "PAUSE_READING example_types = ''PAUSE_READING''"
    "RESUME_READING example_types = ''RESUME_READING''"
    "STOP_READING example_types = ''STOP_READING''"
    "GET_STATUS example_types = ''GET_STATUS''"
    by (simp_all add: example_types_def)
  have p_ok: "fst (pageReader_pauseReading (example_collaborators example_text)
      example_page_at_load) = Returns ()"
    by (simp add: example_collaborators_def spec_pauseReading_def)
  have p_bad: "invoke ReaderPauseReading (pageReader_pauseReading
        (broken_collaborators example_text)) ?s
      = (Throws ''boom'', ?s\<lparr>calls := [ReaderPauseReading]\<rparr>)"
    by (simp add: invoke_def broken_collaborators_def loaded_def)
  have p_bad': "fst (pageReader_pauseReading (broken_collaborators example_text)
      example_page_at_load) = Throws ''boom''"
    by (simp add: broken_collaborators_def)
  have a: "extractPageContent (example_collaborators blank_text) (world ?s)
      = (Returns blank_text, example_page_at_load)"
    by (simp add: example_collaborators_def loaded_def)
  have b: "\<forall>x\<in>set blank_text. is_whitespace x"
    by (simp add: blank_text_def is_whitespace_def)
  have tb: "startReading_content_try (example_collaborators blank_text) example_status ?s
      = (Throws ''No readable content found on this page'',
         ?s\<lparr>world := example_page_at_load, calls := calls ?s @ [ExtractPageContent]\<rparr>)"
    by (rule try_blank [OF a b])
  have "startReading_content (example_collaborators blank_text) example_status ?s
      = startReading_content_catch (example_collaborators blank_text) example_status
          ''No readable content found on this page''
          (?s\<lparr>world := example_page_at_load, calls := calls ?s @ [ExtractPageContent]\<rparr>)"
    by (simp only: startReading_content_def tryCatch_def tb prod.case outcome.case)
  then have start: "fst (startReading_content (example_collaborators blank_text)
      example_status ?s) = Throws ''No readable content found on this page''"
    by (simp add: startReading_content_catch_def action_defs example_collaborators_def
          example_page_at_load_def)
  have reads: "fst (andThen (invoke ReaderGetStatus
          (pageReader_getStatus (example_collaborators example_text))) (\<lambda>status.
        andThen (invoke ReaderIsReading
          (pageReader_isReading (example_collaborators example_text))) (\<lambda>isReading.
        andThen (invoke ReaderIsPaused
          (pageReader_isPaused (example_collaborators example_text))) (\<lambda>isPaused.
        succeed (status, isReading, isPaused)))) ?s) = Returns (''idle'', False, False)"
    by (simp add: action_defs example_collaborators_def spec_reader_defs loaded_def
          example_page_at_load_def example_status_def)
  have u: "''PING'' \<notin> set (recognized_types example_types)"
    by (simp add: recognized_types_def example_types_def)
  note th = handleMessage_responds_once [where K = example_status and M = example_types
      and s = ?s]
  note on_start = th [THEN conjunct2, THEN conjunct2, THEN conjunct1, rule_format]
  note on_pause = th [THEN conjunct2, THEN conjunct2, THEN conjunct2, THEN conjunct1,
      rule_format]
  note on_status = th [THEN conjunct2, THEN conjunct2, THEN conjunct2, THEN conjunct2,
      THEN conjunct2, THEN conjunct2, THEN conjunct1, rule_format]
  note on_unknown = th [THEN conjunct2, THEN conjunct2, THEN conjunct2, THEN conjunct2,
      THEN conjunct2, THEN conjunct2, THEN conjunct2, rule_format]
  have is_start: "msg_type (message_of ''START_READING'') = START_READING example_types"
    by (simp add: t M)
  have is_pause: "msg_type (message_of ''PAUSE_READING'') \<noteq> START_READING example_types \<and>
      msg_type (message_of ''PAUSE_READING'') = PAUSE_READING example_types"
    by (simp add: t M)
  have is_status: "msg_type (message_of ''GET_STATUS'')
        \<notin> {START_READING example_types, PAUSE_READING example_types,
           RESUME_READING example_types, STOP_READING example_types} \<and>
      msg_type (message_of ''GET_STATUS'') = GET_STATUS example_types"
    by (simp add: t M)
  have is_unknown: "msg_type (message_of ''PING'') \<notin> set (recognized_types example_types)"
    by (simp add: t u)
  have 1: "sent (snd (handleMessage (example_collaborators example_text) example_status
      example_types (message_of ''PAUSE_READING'') ?s)) = [Success]"
    using on_pause [OF is_pause, of "example_collaborators example_text", THEN conjunct2]
    by (simp add: l p_ok)
  have 2: "sent (snd (handleMessage (broken_collaborators example_text) example_status
      example_types (message_of ''PAUSE_READING'') ?s)) = [ErrorResponse ''boom'']"
    using on_pause [OF is_pause, of "broken_collaborators example_text", THEN conjunct2]
    by (simp add: l p_bad')
  have b2: "logged (snd (handleMessage (broken_collaborators example_text) example_status
      example_types (message_of ''PAUSE_READING'') ?s))
       = [(''Error handling message:'', ''boom'')]"
    by (simp add: on_pause [OF is_pause, of "broken_collaborators example_text",
          THEN conjunct1] p_bad l)
  have 3: "sent (snd (handleMessage (example_collaborators blank_text) example_status
      example_types (message_of ''START_READING'') ?s))
       = [ErrorResponse ''No readable content found on this page'']"
    using on_start [OF is_start, of "example_collaborators blank_text", THEN conjunct2]
    by (simp add: l start)
  have 4: "sent (snd (handleMessage (example_collaborators example_text) example_status
      example_types (message_of ''GET_STATUS'') ?s)) = [StatusResponse ''idle'' False False]"
    using on_status [OF is_status, of "example_collaborators example_text", THEN conjunct2]
    by (simp add: l reads)
  have 5: "sent (snd (handleMessage (example_collaborators example_text) example_status
      example_types (message_of ''PING'') ?s)) = [ErrorResponse ''Unknown message type'']"
    by (simp add: on_unknown [OF is_unknown, of "example_collaborators example_text"] l)
  show ?thesis
    using 1 2 b2 3 4 5 by (simp only: simp_thms)
qed

lemma handleMessages_append:
  "handleMessages c K M (xs @ ys) s = handleMessages c K M ys (handleMessages c K M xs s)"
  by (induction xs arbitrary: s) simp_all

lemma get_status_generic:
  assumes "GET_STATUS M \<notin> {START_READING M, PAUSE_READING M, RESUME_READING M, STOP_READING M}"
    and "pageReader_getStatus c (world s) = (Returns st, w1)"
    and "pageReader_isReading c w1 = (Returns r, w2)"
    and "pageReader_isPaused c w2 = (Returns q, w3)"
  shows "handleMessage c K M (message_of (GET_STATUS M)) s
           = (Returns (),
              s\<lparr>world := w3,
                calls := calls s @ [ReaderGetStatus, ReaderIsReading, ReaderIsPaused],
                sent := sent s @ [StatusResponse st r q]\<rparr>)"
  using assms by (simp add: handleMessage_def message_of_def action_defs)

lemma idle_kept:
  assumes "distinct (status_enumeration K)"
    and "pageReader_state (world s) = IDLE K"
    and "msg_type m \<noteq> START_READING M"
  shows "pageReader_state (world (snd (handleMessage (with_spec_reader K d) K M m s))) = IDLE K"
  using assms
  by (simp add: handleMessage_def with_spec_reader_def action_defs spec_reader_defs
        status_enumeration_def)

lemma idle_kept_all:
  assumes "distinct (status_enumeration K)"
    and "pageReader_state (world s) = IDLE K"
    and "\<forall>m\<in>set msgs. msg_type m \<noteq> START_READING M"
  shows "pageReader_state (world (handleMessages (with_spec_reader K d) K M msgs s)) = IDLE K"
  using assms(2,3)
proof (induction msgs arbitrary: s)
  case Nil
  then show ?case by simp
next
  case (Cons m msgs)
  from Cons.prems have "pageReader_state (world (snd (handleMessage (with_spec_reader K d) K M m s)))
      = IDLE K"
    by (simp add: idle_kept [OF assms(1)])
  with Cons show ?case by simp
qed

text \<open>
  C6. A GET_STATUS message is answered with the three values that \<^verbatim>\<open>getStatus\<close>,
  \<^verbatim>\<open>isReading\<close> and \<^verbatim>\<open>isPaused\<close> of the page reader return, read in this order and passed
  on unchanged. With the page reader of the specification, which starts as IDLE, a
  GET_STATUS that comes after any messages none of which is a START_READING is answered
  with IDLE, not reading, not paused.
\<close>

theorem get_status_response:
  assumes "GET_STATUS M \<notin> {START_READING M, PAUSE_READING M, RESUME_READING M, STOP_READING M}"
  shows "(pageReader_getStatus c (world s) = (Returns st, w1) \<and>
          pageReader_isReading c w1 = (Returns r, w2) \<and>
          pageReader_isPaused c w2 = (Returns q, w3) \<longrightarrow>
          handleMessage c K M (message_of (GET_STATUS M)) s
            = (Returns (),
               s\<lparr>world := w3,
                 calls := calls s @ [ReaderGetStatus, ReaderIsReading, ReaderIsPaused],
                 sent := sent s @ [StatusResponse st r q]\<rparr>))
     \<and> (distinct (status_enumeration K) \<and> pageReader_state w0 = IDLE K \<and>
        (\<forall>m\<in>set msgs. msg_type m \<noteq> START_READING M) \<longrightarrow>
          sent (handleMessages (with_spec_reader K d) K M
                  (msgs @ [message_of (GET_STATUS M)]) (loaded w0))
            = sent (handleMessages (with_spec_reader K d) K M msgs (loaded w0))
                @ [StatusResponse (IDLE K) False False])"
proof (intro conjI impI)
  assume a: "pageReader_getStatus c (world s) = (Returns st, w1) \<and>
          pageReader_isReading c w1 = (Returns r, w2) \<and>
          pageReader_isPaused c w2 = (Returns q, w3)"
  show "handleMessage c K M (message_of (GET_STATUS M)) s
            = (Returns (),
               s\<lparr>world := w3,
                 calls := calls s @ [ReaderGetStatus, ReaderIsReading, ReaderIsPaused],
                 sent := sent s @ [StatusResponse st r q]\<rparr>)"
    using a get_status_generic [OF assms, of c s st w1 r w2 q w3 K] by blast
next
  assume h: "distinct (status_enumeration K) \<and> pageReader_state w0 = IDLE K \<and>
        (\<forall>m\<in>set msgs. msg_type m \<noteq> START_READING M)"
  define s1 where "s1 = handleMessages (with_spec_reader K d) K M msgs (loaded w0)"
  from h have idle: "pageReader_state (world s1) = IDLE K"
    unfolding s1_def using idle_kept_all [of K "loaded w0" msgs M d] by (simp add: loaded_def)
  from h have ne: "IDLE K \<noteq> READING K" "IDLE K \<noteq> PAUSED K"
    by (simp_all add: status_enumeration_def)
  have g: "pageReader_getStatus (with_spec_reader K d) (world s1) = (Returns (IDLE K), world s1)"
    using idle by (simp add: with_spec_reader_def spec_getStatus_def)
  have r: "pageReader_isReading (with_spec_reader K d) (world s1) = (Returns False, world s1)"
    using idle ne by (simp add: with_spec_reader_def spec_isReading_def)
  have q: "pageReader_isPaused (with_spec_reader K d) (world s1) = (Returns False, world s1)"
    using idle ne by (simp add: with_spec_reader_def spec_isPaused_def)
  have "handleMessage (with_spec_reader K d) K M (message_of (GET_STATUS M)) s1
      = (Returns (),
         s1\<lparr>world := world s1,
           calls := calls s1 @ [ReaderGetStatus, ReaderIsReading, ReaderIsPaused],
           sent := sent s1 @ [StatusResponse (IDLE K) False False]\<rparr>)"
    by (rule get_status_generic [OF assms g r q])
  then show "sent (handleMessages (with_spec_reader K d) K M
                  (msgs @ [message_of (GET_STATUS M)]) (loaded w0))
            = sent (handleMessages (with_spec_reader K d) K M msgs (loaded w0))
                @ [StatusResponse (IDLE K) False False]"
    by (simp add: handleMessages_append s1_def)
qed

theorem get_status_response_witness:
  "GET_STATUS example_types
     \<notin> {START_READING example_types, PAUSE_READING example_types,
        RESUME_READING example_types, STOP_READING example_types}
   \<and> distinct (status_enumeration example_status)
   \<and> pageReader_state example_page_at_load = IDLE example_status
   \<and> last (sent (handleMessages (example_collaborators example_text) example_status
        example_types (example_messages @ [message_of ''GET_STATUS''])
        (loaded example_page_at_load)))
       = StatusResponse ''idle'' False False
   \<and> handleMessage (example_collaborators example_text) example_status example_types
        (message_of ''GET_STATUS'') (loaded example_page_at_load)
       = (Returns (),
          (loaded example_page_at_load)
            \<lparr>calls := [ReaderGetStatus, ReaderIsReading, ReaderIsPaused],
             sent := [StatusResponse ''idle'' False False]\<rparr>)"
proof -
  have a: "GET_STATUS example_types
     \<notin> {START_READING example_types, PAUSE_READING example_types,
        RESUME_READING example_types, STOP_READING example_types}"
    by (simp add: example_types_def)
  have b: "distinct (status_enumeration example_status)"
    by (simp add: status_enumeration_def example_status_def)
  have c: "pageReader_state example_page_at_load = IDLE example_status"
    by (simp add: example_page_at_load_def example_status_def)
  have d: "\<forall>m\<in>set example_messages. msg_type m \<noteq> START_READING example_types"
    by (simp add: example_messages_def message_of_def example_types_def)
  have e: "with_spec_reader example_status (example_collaborators example_text)
      = example_collaborators example_text"
    by (simp add: with_spec_reader_def example_collaborators_def)
  have f: "pageReader_getStatus (example_collaborators example_text)
        (world (loaded example_page_at_load)) = (Returns ''idle'', example_page_at_load)"
    "pageReader_isReading (example_collaborators example_text) example_page_at_load
      = (Returns False, example_page_at_load)"
    "pageReader_isPaused (example_collaborators example_text) example_page_at_load
      = (Returns False, example_page_at_load)"
    by (simp_all add: example_collaborators_def loaded_def example_page_at_load_def
          spec_reader_defs example_status_def)
  have g: "GET_STATUS example_types = ''GET_STATUS''" "IDLE example_status = ''idle''"
    by (simp_all add: example_types_def example_status_def)
  have l: "(loaded example_page_at_load)\<lparr>world := example_page_at_load\<rparr>
      = loaded example_page_at_load"
    "calls (loaded example_page_at_load) = []" "sent (loaded example_page_at_load) = []"
    by (simp_all add: loaded_def)
  show ?thesis
    using a b c d f
      get_status_response [OF a, where K = example_status and ?w0.0 = example_page_at_load
        and msgs = example_messages and d = "example_collaborators example_text"
        and c = "example_collaborators example_text" and s = "loaded example_page_at_load"
        and st = "''idle''" and ?w1.0 = example_page_at_load and r = False
        and ?w2.0 = example_page_at_load and q = False and ?w3.0 = example_page_at_load]
    by (simp add: e g l)
qed

section \<open>Properties of the polling timer\<close>











end
